theory Spec2Isabelle
  imports Complex_Main
begin

text \<open>
  The Google Pay Web Push Provisioning integration library of the repository: the
  validation of the options, the session object \<open>AppContext\<close> with its message handler and
  its poll for the closing of the window, and the two entry points \<open>openAppWindow\<close> and
  \<open>closeAppWindow\<close> with the singleton \<open>currentAppContext\<close>. The Angular shell only calls
  \<open>openAppWindow\<close> with a fixed configuration, which is the sample configuration below.
\<close>

section \<open>JavaScript values\<close>

text \<open>
  The integration library is dynamically typed, so its inputs are modelled as values of
  one datatype. A number is an IEEE double, represented by what it denotes: \<open>NaN\<close>, the
  two infinities, or a finite value \<open>Fin x\<close> with \<open>x\<close> the real number that the double
  denotes (both zeros are \<open>Fin 0\<close>). Every finite double, fractional or not, is such a
  value; nothing below uses that only some reals are doubles. A function value is
  identified by a number, and an object is a plain object given by its table of own
  data properties (the first binding of a key is the property). A private member \<open>x_\<close>
  of the source is written \<open>x'\<close>.
\<close>

datatype jsnum = NaN | PosInf | NegInf | Fin real

datatype jsval =
    JUndefined
  | JNull
  | JBool bool
  | JNum jsnum
  | JStr string
  | JFunc nat
  | JObj "(string \<times> jsval) list"

text \<open>The \<open>typeof\<close> operator.\<close>

fun typeof :: "jsval \<Rightarrow> string" where
  "typeof JUndefined = ''undefined''"
| "typeof JNull = ''object''"
| "typeof (JBool b) = ''boolean''"
| "typeof (JNum n) = ''number''"
| "typeof (JStr s) = ''string''"
| "typeof (JFunc f) = ''function''"
| "typeof (JObj ps) = ''object''"

text \<open>Truthiness, as \<open>!v\<close>, \<open>v || w\<close>, \<open>Boolean(v)\<close> and \<open>if (v)\<close> read a value.\<close>

fun ToBoolean :: "jsval \<Rightarrow> bool" where
  "ToBoolean JUndefined = False"
| "ToBoolean JNull = False"
| "ToBoolean (JBool b) = b"
| "ToBoolean (JNum n) = (n \<noteq> NaN \<and> n \<noteq> Fin 0)"
| "ToBoolean (JStr s) = (s \<noteq> [])"
| "ToBoolean (JFunc f) = True"
| "ToBoolean (JObj ps) = True"

text \<open>
  Reading a property \<open>v[k]\<close>. The keys read by the library are not properties of the
  prototypes of strings, numbers, booleans or functions, so such a read is \<open>undefined\<close>
  there. The library never reads a property of \<open>null\<close> or \<open>undefined\<close>: each read is
  behind a guard.
\<close>

fun js_get :: "jsval \<Rightarrow> string \<Rightarrow> jsval" where
  "js_get (JObj ps) k = (case map_of ps k of Some v \<Rightarrow> v | None \<Rightarrow> JUndefined)"
| "js_get v k = JUndefined"

text \<open>\<open>Math.max\<close> of two numbers: \<open>NaN\<close> is contagious.\<close>

fun Math_max :: "jsnum \<Rightarrow> jsnum \<Rightarrow> jsnum" where
  "Math_max NaN b = NaN"
| "Math_max a NaN = NaN"
| "Math_max PosInf b = PosInf"
| "Math_max a PosInf = PosInf"
| "Math_max NegInf b = b"
| "Math_max a NegInf = a"
| "Math_max (Fin a) (Fin b) = Fin (max a b)"

text \<open>The decimal digits of a natural number.\<close>

fun digits :: "nat \<Rightarrow> string" where
  "digits n =
     (if n < 10 then [''0123456789'' ! n]
      else digits (n div 10) @ [''0123456789'' ! (n mod 10)])"

declare digits.simps [simp del]

section \<open>Errors and assertions\<close>

text \<open>
  What a call can end with instead of a value. \<open>Error errorCode\<close> is the error that the
  library's own \<open>throw new Error(errorCode)\<close> creates; \<open>TypeError\<close> and \<open>URIError\<close> are the
  runtime's errors (a call of something that is not a function, a property read of
  \<open>null\<close>, a string that \<open>encodeURIComponent\<close> cannot encode); \<open>Thrown v\<close> is a value thrown
  by code of the integrator that the library calls (a \<open>toString\<close> method of a
  configuration value).
\<close>

datatype exn = Error string | TypeError | URIError | Thrown jsval

abbreviation INVALID_OR_MISSING_APP_OPTIONS :: string where
  "INVALID_OR_MISSING_APP_OPTIONS \<equiv> ''E406''"
abbreviation INVALID_OR_MISSING_ON_SESSION_CREATED :: string where
  "INVALID_OR_MISSING_ON_SESSION_CREATED \<equiv> ''E407''"
abbreviation INVALID_OPTIONAL_CALLBACK :: string where
  "INVALID_OPTIONAL_CALLBACK \<equiv> ''E408''"
abbreviation INVALID_CONTENT_DIMENSIONS :: string where
  "INVALID_CONTENT_DIMENSIONS \<equiv> ''E409''"
abbreviation APP_WINDOW_ALREADY_OPEN :: string where
  "APP_WINDOW_ALREADY_OPEN \<equiv> ''E410''"
abbreviation APP_WINDOW_NOT_OPENED :: string where
  "APP_WINDOW_NOT_OPENED \<equiv> ''E411''"

definition assert :: "bool \<Rightarrow> string \<Rightarrow> exn + unit" where
  "assert condition errorCode = (if \<not> condition then Inl (Error errorCode) else Inr ())"

definition assertValueType :: "jsval \<Rightarrow> string list \<Rightarrow> string \<Rightarrow> exn + jsval" where
  "assertValueType v allowedTypes errorCode =
     (case assert (typeof v \<in> set allowedTypes) errorCode of
        Inl e \<Rightarrow> Inl e
      | Inr _ \<Rightarrow> Inr v)"

text \<open>Sequencing of statements that may throw.\<close>

definition and_then :: "exn + 'a \<Rightarrow> ('a \<Rightarrow> exn + 'b) \<Rightarrow> exn + 'b" where
  "and_then m f = (case m of Inl e \<Rightarrow> Inl e | Inr v \<Rightarrow> f v)"

section \<open>Parameter maps\<close>

text \<open>
  A JavaScript \<open>Map\<close> with string keys keeps its entries in insertion order; \<open>set\<close> on a
  key that is present replaces the value in place.
\<close>

fun Map_set :: "(string \<times> 'v) list \<Rightarrow> string \<Rightarrow> 'v \<Rightarrow> (string \<times> 'v) list" where
  "Map_set [] k v = [(k, v)]"
| "Map_set ((k', v') # m) k v = (if k' = k then (k, v) # m else (k', v') # Map_set m k v)"

fun join :: "string list \<Rightarrow> string \<Rightarrow> string" where
  "join [] d = []"
| "join [x] d = x"
| "join (x # y # xs) d = x @ d @ join (y # xs) d"

definition joinParams :: "(string \<times> string) list \<Rightarrow> string \<Rightarrow> string" where
  "joinParams paramMap delimiter = join (map (\<lambda>(key, val). key @ ''='' @ val) paramMap) delimiter"

section \<open>Constants\<close>

abbreviation API_VERSION :: string where "API_VERSION \<equiv> ''V1_6''"
abbreviation PROD_GOOGLE_PAY_ORIGIN :: string where
  "PROD_GOOGLE_PAY_ORIGIN \<equiv> ''https://pay.google.com''"
abbreviation TEST_GOOGLE_PAY_ORIGIN :: string where
  "TEST_GOOGLE_PAY_ORIGIN \<equiv> ''https://pay.sandbox.google.com''"
abbreviation APP_URL_PATH :: string where
  "APP_URL_PATH \<equiv> ''/gp/v/a/pushprovisioning/frame''"
abbreviation FIXED_APP_WINDOW_ID_1 :: string where
  "FIXED_APP_WINDOW_ID_1 \<equiv> ''googlepay-webpp-v1_6-app-window-1''"
abbreviation FIXED_APP_WINDOW_ID_2 :: string where
  "FIXED_APP_WINDOW_ID_2 \<equiv> ''googlepay-webpp-v1_6-app-window-2''"
abbreviation MIN_CONTENT_HEIGHT :: jsnum where "MIN_CONTENT_HEIGHT \<equiv> Fin 700"
abbreviation MIN_CONTENT_WIDTH :: jsnum where "MIN_CONTENT_WIDTH \<equiv> Fin 1100"

section \<open>AppOptions\<close>

text \<open>
  The validated options. The callback fields hold what the configuration object held
  (a function or \<open>undefined\<close> once validated); the two dimensions are \<open>number|undefined\<close>,
  so \<open>None\<close> is \<open>undefined\<close>; the remaining fields are passed through as they are.
\<close>

record AppOptions =
  onSessionCreated :: jsval
  onReady :: jsval
  onSuccess :: jsval
  onFailure :: jsval
  onFinish :: jsval
  onCancel :: jsval
  contentHeight :: "jsnum option"
  contentWidth :: "jsnum option"
  integratorId :: jsval
  tokenSetting :: jsval
  cardSetting :: jsval
  isTestEnvironment :: jsval
  clientSessionId :: jsval
  hl :: jsval

fun number_of :: "jsval \<Rightarrow> jsnum option" where
  "number_of (JNum n) = Some n"
| "number_of v = None"

definition assertOptionalCallback :: "jsval \<Rightarrow> exn + jsval" where
  "assertOptionalCallback v =
     assertValueType v [''function'', ''undefined''] INVALID_OPTIONAL_CALLBACK"

text \<open>The constructor of \<open>AppOptions\<close>: the checks in the order of the source.\<close>

definition AppOptions_new :: "jsval \<Rightarrow> exn + AppOptions" where
  "AppOptions_new appOptionsObject =
     and_then (assertValueType (js_get appOptionsObject ''onSessionCreated'') [''function'']
                 INVALID_OR_MISSING_ON_SESSION_CREATED) (\<lambda>v_onSessionCreated.
     and_then (assertOptionalCallback (js_get appOptionsObject ''onReady'')) (\<lambda>v_onReady.
     and_then (assertOptionalCallback (js_get appOptionsObject ''onSuccess'')) (\<lambda>v_onSuccess.
     and_then (assertOptionalCallback (js_get appOptionsObject ''onFailure'')) (\<lambda>v_onFailure.
     and_then (assertOptionalCallback (js_get appOptionsObject ''onFinish'')) (\<lambda>v_onFinish.
     and_then (assertOptionalCallback (js_get appOptionsObject ''onCancel'')) (\<lambda>v_onCancel.
     and_then (assertValueType (js_get appOptionsObject ''contentHeight'')
                 [''number'', ''undefined''] INVALID_CONTENT_DIMENSIONS) (\<lambda>v_contentHeight.
     and_then (assertValueType (js_get appOptionsObject ''contentWidth'')
                 [typeof v_contentHeight] INVALID_CONTENT_DIMENSIONS) (\<lambda>v_contentWidth.
     Inr \<lparr> onSessionCreated = v_onSessionCreated,
           onReady = v_onReady,
           onSuccess = v_onSuccess,
           onFailure = v_onFailure,
           onFinish = v_onFinish,
           onCancel = v_onCancel,
           contentHeight = number_of v_contentHeight,
           contentWidth = number_of v_contentWidth,
           integratorId = js_get appOptionsObject ''integratorId'',
           tokenSetting = js_get appOptionsObject ''tokenSetting'',
           cardSetting = js_get appOptionsObject ''cardSetting'',
           isTestEnvironment = js_get appOptionsObject ''isTestEnvironment'',
           clientSessionId = js_get appOptionsObject ''clientSessionId'',
           hl = js_get appOptionsObject ''hl'' \<rparr>))))))))"

text \<open>
  \<open>Math.max\<close> converts its arguments to numbers, and \<open>undefined\<close> converts to \<open>NaN\<close>;
  \<open>!d\<close> on a \<open>number|undefined\<close> field is true of \<open>undefined\<close>, of zero and of \<open>NaN\<close>.
\<close>

definition ToNumber :: "jsnum option \<Rightarrow> jsnum" where
  "ToNumber d = (case d of None \<Rightarrow> NaN | Some n \<Rightarrow> n)"

definition truthy_dimension :: "jsnum option \<Rightarrow> bool" where
  "truthy_dimension d = (case d of None \<Rightarrow> False | Some n \<Rightarrow> ToBoolean (JNum n))"

section \<open>The page and its windows\<close>

text \<open>
  A window opened by the page: the three arguments of \<open>window.open\<close> and the \<open>closed\<close>
  property. A \<open>Window\<close> reference is an index into the list of windows.
\<close>

record popup =
  url :: string
  target :: string
  features :: string
  closed :: bool

record MessageEvent =
  origin :: string
  data :: jsval

text \<open>
  A call of an integrator's callback: the function, its argument, and what
  \<open>receivedAppOutcome_\<close> of the calling context held when the call was made. A callback
  is the integrator's code: the library calls it as the last statement of a method, so
  the call is recorded and whatever the callback does to the page (it may call the two
  entry points) is a later event of the run.
\<close>

record invocation =
  callee :: jsval
  arg :: jsval
  outcome_at_call :: bool

text \<open>The session object. Its fields are those assigned in the constructor.\<close>

record AppContext =
  actionMap' :: "(string \<times> jsval) list"
  onFinish' :: jsval
  onCancel' :: jsval
  appWindowId' :: string
  appOrigin' :: string
  appWindow' :: "nat option"
  receivedAppOutcome' :: bool

text \<open>
  Everything the library reads and writes. First the page's environment: \<open>window.name\<close>,
  the page's origin, whether the browser lets \<open>window.open\<close> create a window, and what
  the runtime and the integrator's objects compute but this theory does not:
  \<open>encodeURIComponent\<close> (\<open>None\<close> where it throws \<open>URIError\<close>), the digits that \<open>toString\<close>
  prints for a number that is not a safe integer, the source text that \<open>toString\<close> prints
  for a function, and the outcome of calling a function as the \<open>toString\<close> method of an
  object (the string that reaches \<open>encodeURIComponent\<close>, or the value it throws). Then the
  state: the windows
  opened so far, the store of \<open>AppContext\<close> objects (a reference is an index: the poll
  closures and \<open>currentAppContext\<close> share the objects), the module variable
  \<open>currentAppContext\<close>, the pending \<open>setTimeout\<close> closures (each polls the context it
  captured), whether the \<open>message\<close> listener is registered, and the calls of callbacks
  made so far.
\<close>

record world =
  window_name :: string
  page_origin :: string
  popups_allowed :: bool
  encodeURIComponent :: "string \<Rightarrow> string option"
  number_digits :: "real \<Rightarrow> string"
  function_source :: "nat \<Rightarrow> string"
  method_toString :: "nat \<Rightarrow> jsval \<Rightarrow> jsval + string"
  windows :: "popup list"
  heap :: "AppContext list"
  currentAppContext :: "nat option"
  timers :: "nat list"
  listening :: bool
  calls :: "invocation list"

text \<open>
  \<open>Number.prototype.toString\<close>. A safe integer (an integer of absolute value at most
  \<open>2^53 - 1\<close>) prints as its decimal digits. Any other finite number prints as the
  shortest digits that read back as the same double, in exponent form from \<open>1e21\<close>: these
  are the runtime's.
\<close>

abbreviation MAX_SAFE_INTEGER :: real where "MAX_SAFE_INTEGER \<equiv> 9007199254740991"

definition Number_toString :: "world \<Rightarrow> jsnum \<Rightarrow> string" where
  "Number_toString w n =
     (case n of
        NaN \<Rightarrow> ''NaN''
      | PosInf \<Rightarrow> ''Infinity''
      | NegInf \<Rightarrow> ''-Infinity''
      | Fin x \<Rightarrow>
          if x \<in> \<int> \<and> \<bar>x\<bar> \<le> MAX_SAFE_INTEGER
          then (if x < 0 then ''-'' @ digits (nat (- \<lfloor>x\<rfloor>)) else digits (nat \<lfloor>x\<rfloor>))
          else number_digits w x)"

text \<open>
  \<open>value.toString()\<close>. An object with no own \<open>toString\<close> inherits the one of
  \<open>Object.prototype\<close>; an own \<open>toString\<close> that is a function is called; one that is not a
  function cannot be called. The library calls \<open>toString\<close> only on a value that is neither
  \<open>undefined\<close> nor \<open>null\<close>, where the read of the property would throw.
\<close>

definition value_toString :: "world \<Rightarrow> jsval \<Rightarrow> exn + string" where
  "value_toString w v =
     (case v of
        JStr s \<Rightarrow> Inr s
      | JNum n \<Rightarrow> Inr (Number_toString w n)
      | JBool b \<Rightarrow> Inr (if b then ''true'' else ''false'')
      | JFunc f \<Rightarrow> Inr (function_source w f)
      | JObj ps \<Rightarrow>
          (case map_of ps ''toString'' of
             None \<Rightarrow> Inr ''[object Object]''
           | Some (JFunc f) \<Rightarrow>
               (case method_toString w f v of Inl t \<Rightarrow> Inl (Thrown t) | Inr s \<Rightarrow> Inr s)
           | Some _ \<Rightarrow> Inl TypeError)
      | _ \<Rightarrow> Inl TypeError)"

definition encode :: "world \<Rightarrow> string \<Rightarrow> exn + string" where
  "encode w s = (case encodeURIComponent w s of None \<Rightarrow> Inl URIError | Some t \<Rightarrow> Inr t)"

text \<open>
  \<open>window.open\<close>: a new window, or \<open>null\<close> when the browser blocks it. The library opens a
  window only when the previous session's window is closed, so the name never designates
  a window that is still open.
\<close>

definition window_open :: "string \<Rightarrow> string \<Rightarrow> string \<Rightarrow> world \<Rightarrow> nat option \<times> world" where
  "window_open u t f w =
     (if popups_allowed w
      then (Some (length (windows w)),
            w\<lparr>windows := windows w @ [\<lparr>url = u, target = t, features = f, closed = False\<rparr>]\<rparr>)
      else (None, w))"

definition window_close :: "nat \<Rightarrow> world \<Rightarrow> world" where
  "window_close h w = w\<lparr>windows := (windows w)[h := (windows w ! h)\<lparr>closed := True\<rparr>]\<rparr>"

definition invoke :: "nat \<Rightarrow> jsval \<Rightarrow> jsval \<Rightarrow> world \<Rightarrow> world" where
  "invoke this f a w =
     w\<lparr>calls := calls w @
        [\<lparr>callee = f, arg = a, outcome_at_call = receivedAppOutcome' (heap w ! this)\<rparr>]\<rparr>"

definition setTimeout_poll :: "nat \<Rightarrow> world \<Rightarrow> world" where
  "setTimeout_poll this w = w\<lparr>timers := timers w @ [this]\<rparr>"

section \<open>AppContext\<close>

definition makeActionMap' :: "AppOptions \<Rightarrow> (string \<times> jsval) list" where
  "makeActionMap' appOptions =
     Map_set (Map_set (Map_set (Map_set []
       ''sessionCreated'' (onSessionCreated appOptions))
       ''ready'' (onReady appOptions))
       ''success'' (onSuccess appOptions))
       ''failure'' (onFailure appOptions)"

text \<open>\<open>Map.get\<close> with a key of any type: only a string is a key of the action map.\<close>

definition Map_get :: "(string \<times> jsval) list \<Rightarrow> jsval \<Rightarrow> jsval" where
  "Map_get m key =
     (case key of
        JStr k \<Rightarrow> (case map_of m k of Some v \<Rightarrow> v | None \<Rightarrow> JUndefined)
      | _ \<Rightarrow> JUndefined)"

definition getAppWindowFeatures' :: "world \<Rightarrow> AppOptions \<Rightarrow> string" where
  "getAppWindowFeatures' w appOptions =
     (if \<not> truthy_dimension (contentHeight appOptions) \<or>
         \<not> truthy_dimension (contentWidth appOptions)
      then ''''
      else joinParams
             [(''height'',
               Number_toString w (Math_max MIN_CONTENT_HEIGHT (ToNumber (contentHeight appOptions)))),
              (''width'',
               Number_toString w (Math_max MIN_CONTENT_WIDTH (ToNumber (contentWidth appOptions))))]
             '','')"

text \<open>
  \<open>processUrlParam\<close> of \<open>getAppQueryString_\<close>, with the parameter map passed along:
  \<open>value.toString()\<close> and \<open>encodeURIComponent\<close> may throw, and then nothing was set.
\<close>

definition processUrlParam ::
  "world \<Rightarrow> string \<Rightarrow> jsval \<Rightarrow> (string \<times> string) list \<Rightarrow> exn + (string \<times> string) list" where
  "processUrlParam w urlParamKey v urlParamMap =
     (if typeof v \<noteq> ''undefined'' \<and> v \<noteq> JStr '''' \<and> v \<noteq> JNull
      then and_then (value_toString w v) (\<lambda>s.
           and_then (encode w s) (\<lambda>t.
           Inr (Map_set urlParamMap urlParamKey t)))
      else Inr urlParamMap)"

text \<open>The parameter map of \<open>getAppQueryString_\<close> once its six optional entries are processed.\<close>

definition urlParamMap :: "world \<Rightarrow> AppOptions \<Rightarrow> string \<Rightarrow> exn + (string \<times> string) list" where
  "urlParamMap w appOptions appWindowFeatures =
     and_then (encode w (page_origin w)) (\<lambda>origin_param.
     and_then (processUrlParam w ''integratorId'' (integratorId appOptions)
                 [(''apiVersion'', API_VERSION), (''origin'', origin_param)]) (\<lambda>m1.
     and_then (processUrlParam w ''tokenSetting'' (tokenSetting appOptions) m1) (\<lambda>m2.
     and_then (processUrlParam w ''cardSetting'' (cardSetting appOptions) m2) (\<lambda>m3.
     and_then (processUrlParam w ''csid'' (clientSessionId appOptions) m3) (\<lambda>m4.
     and_then (processUrlParam w ''hl'' (hl appOptions) m4) (\<lambda>m5.
     processUrlParam w ''windowFeatures'' (JStr appWindowFeatures) m5))))))"

definition getAppQueryString' :: "world \<Rightarrow> AppOptions \<Rightarrow> string \<Rightarrow> exn + string" where
  "getAppQueryString' w appOptions appWindowFeatures =
     and_then (urlParamMap w appOptions appWindowFeatures) (\<lambda>m.
     Inr (''?'' @ joinParams m ''&''))"

definition isAppWindowOpen :: "world \<Rightarrow> AppContext \<Rightarrow> bool" where
  "isAppWindowOpen w this =
     (case appWindow' this of None \<Rightarrow> False | Some h \<Rightarrow> \<not> closed (windows w ! h))"

text \<open>
  One run of the poll closure on the context at \<open>this\<close>. The callback is the last thing
  the method does, so its call is recorded and its own effects are later events.
\<close>

definition pollAppWindowClosed' :: "nat \<Rightarrow> world \<Rightarrow> (exn + unit) \<times> world" where
  "pollAppWindowClosed' this w =
     (let c = heap w ! this in
      case appWindow' c of
        None \<Rightarrow> (Inl TypeError, w)
      | Some h \<Rightarrow>
          if closed (windows w ! h) then
            (if ToBoolean (onFinish' c) \<and> receivedAppOutcome' c
             then (Inr (), invoke this (onFinish' c) (JObj []) w)
             else if ToBoolean (onCancel' c) \<and> \<not> receivedAppOutcome' c
             then (Inr (), invoke this (onCancel' c) (JObj []) w)
             else (Inr (), w))
          else if ToBoolean (onFinish' c) \<or> (ToBoolean (onCancel' c) \<and> \<not> receivedAppOutcome' c)
          then (Inr (), setTimeout_poll this w)
          else (Inr (), w))"

text \<open>
  The constructor. The object under construction is reachable only through \<open>this\<close> until
  the constructor returns, so it enters the store once the window is there; when the
  query string or the assertion on the window throws, nothing was stored.
\<close>

definition AppContext_new :: "AppOptions \<Rightarrow> world \<Rightarrow> (exn + nat) \<times> world" where
  "AppContext_new appOptions w =
     (let appWindowId = (if window_name w = FIXED_APP_WINDOW_ID_1
                         then FIXED_APP_WINDOW_ID_2 else FIXED_APP_WINDOW_ID_1);
          appOrigin = (if ToBoolean (isTestEnvironment appOptions)
                       then TEST_GOOGLE_PAY_ORIGIN else PROD_GOOGLE_PAY_ORIGIN);
          appWindowFeatures = getAppWindowFeatures' w appOptions
      in case getAppQueryString' w appOptions appWindowFeatures of
           Inl e \<Rightarrow> (Inl e, w)
         | Inr appQueryString \<Rightarrow>
     (let appUrl = appOrigin @ APP_URL_PATH @ appQueryString;
          opened = window_open appUrl appWindowId appWindowFeatures w;
          appWindow = fst opened;
          w1 = snd opened
      in case assert (appWindow \<noteq> None) APP_WINDOW_NOT_OPENED of
           Inl e \<Rightarrow> (Inl e, w1)
         | Inr _ \<Rightarrow>
             let this = length (heap w1);
                 w2 = w1\<lparr>heap := heap w1 @
                        [\<lparr>actionMap' = makeActionMap' appOptions,
                          onFinish' = onFinish appOptions,
                          onCancel' = onCancel appOptions,
                          appWindowId' = appWindowId,
                          appOrigin' = appOrigin,
                          appWindow' = appWindow,
                          receivedAppOutcome' = False\<rparr>]\<rparr>;
                 polled = pollAppWindowClosed' this w2
             in (case fst polled of
                   Inl e \<Rightarrow> (Inl e, snd polled)
                 | Inr _ \<Rightarrow> (Inr this, snd polled))))"

definition AppContext_closeAppWindow :: "nat \<Rightarrow> world \<Rightarrow> world" where
  "AppContext_closeAppWindow this w =
     (let c = heap w ! this in
      if isAppWindowOpen w c
      then (case appWindow' c of None \<Rightarrow> w | Some h \<Rightarrow> window_close h w)
      else w)"

text \<open>\<open>messageEvent.data || {}\<close>, then a property of it.\<close>

definition messageData :: "MessageEvent \<Rightarrow> jsval" where
  "messageData messageEvent = (if ToBoolean (data messageEvent) then data messageEvent else JObj [])"

definition AppContext_handleMessageEvent :: "nat \<Rightarrow> MessageEvent \<Rightarrow> world \<Rightarrow> world" where
  "AppContext_handleMessageEvent this messageEvent w =
     (let c = heap w ! this in
      if \<not> isAppWindowOpen w c \<or> origin messageEvent \<noteq> appOrigin' c \<or>
         js_get (messageData messageEvent) ''appWindowId'' \<noteq> JStr (appWindowId' c) \<or>
         \<not> ToBoolean (js_get (messageData messageEvent) ''action'')
      then w
      else
        let action = js_get (messageData messageEvent) ''action'';
            w1 = (if action = JStr ''success'' \<or> action = JStr ''failure''
                  then w\<lparr>heap := (heap w)[this := c\<lparr>receivedAppOutcome' := True\<rparr>]\<rparr>
                  else w);
            callback = Map_get (actionMap' c) action
        in if ToBoolean callback
           then invoke this callback (js_get (messageData messageEvent) ''payload'') w1
           else w1)"

section \<open>The module: the singleton and the two entry points\<close>

definition openAppWindow :: "jsval \<Rightarrow> world \<Rightarrow> (exn + unit) \<times> world" where
  "openAppWindow appOptionsObject w =
     (case assertValueType appOptionsObject [''object''] INVALID_OR_MISSING_APP_OPTIONS of
        Inl e \<Rightarrow> (Inl e, w)
      | Inr _ \<Rightarrow>
     (case assert (appOptionsObject \<noteq> JNull) INVALID_OR_MISSING_APP_OPTIONS of
        Inl e \<Rightarrow> (Inl e, w)
      | Inr _ \<Rightarrow>
     (case AppOptions_new appOptionsObject of
        Inl e \<Rightarrow> (Inl e, w)
      | Inr appOptions \<Rightarrow>
     (case assert (case currentAppContext w of
                     None \<Rightarrow> True
                   | Some cur \<Rightarrow> \<not> isAppWindowOpen w (heap w ! cur))
                  APP_WINDOW_ALREADY_OPEN of
        Inl e \<Rightarrow> (Inl e, w)
      | Inr _ \<Rightarrow>
     (case AppContext_new appOptions w of
        (Inl e, w1) \<Rightarrow> (Inl e, w1)
      | (Inr this, w1) \<Rightarrow> (Inr (), w1\<lparr>currentAppContext := Some this\<rparr>))))))"

definition closeAppWindow :: "world \<Rightarrow> world" where
  "closeAppWindow w =
     (case currentAppContext w of None \<Rightarrow> w | Some cur \<Rightarrow> AppContext_closeAppWindow cur w)"

definition handleMessageEvent :: "MessageEvent \<Rightarrow> world \<Rightarrow> world" where
  "handleMessageEvent event w =
     (case currentAppContext w of
        None \<Rightarrow> w
      | Some cur \<Rightarrow> AppContext_handleMessageEvent cur event w)"

definition handleUnloadEvent :: "world \<Rightarrow> world" where
  "handleUnloadEvent w = closeAppWindow (w\<lparr>listening := False\<rparr>)"

section \<open>Runs of the page\<close>

text \<open>
  What can happen on the page, one event at a time on its single thread: a call of an
  entry point, the delivery of a message, the firing of a pending poll closure, the user
  closing a window, the page renaming itself, the browser's popup setting changing, and
  the unload of the page. An error thrown to the caller or out of a timer leaves the
  state as it was when thrown.
\<close>

datatype event =
    OpenCall jsval
  | CloseCall
  | Message MessageEvent
  | PollTick nat
  | UserCloses nat
  | Rename string
  | PopupSetting bool
  | Unload

fun step :: "event \<Rightarrow> world \<Rightarrow> world" where
  "step (OpenCall appOptionsObject) w = snd (openAppWindow appOptionsObject w)"
| "step CloseCall w = closeAppWindow w"
| "step (Message ev) w = (if listening w then handleMessageEvent ev w else w)"
| "step (PollTick this) w =
     (if this \<in> set (timers w)
      then snd (pollAppWindowClosed' this (w\<lparr>timers := remove1 this (timers w)\<rparr>))
      else w)"
| "step (UserCloses h) w = (if h < length (windows w) then window_close h w else w)"
| "step (Rename n) w = w\<lparr>window_name := n\<rparr>"
| "step (PopupSetting b) w = w\<lparr>popups_allowed := b\<rparr>"
| "step Unload w = handleUnloadEvent w"

fun run :: "event list \<Rightarrow> world \<Rightarrow> world" where
  "run [] w = w"
| "run (e # es) w = run es (step e w)"

section \<open>Derived notions\<close>

text \<open>
  The object that the constructor of \<open>AppContext\<close> stores, the query string that it builds
  (or what the building throws), and the condition that the assertion of \<open>openAppWindow\<close>
  on the previous session rejects.
\<close>

definition new_context :: "AppOptions \<Rightarrow> world \<Rightarrow> AppContext" where
  "new_context opts w =
     \<lparr>actionMap' = makeActionMap' opts,
      onFinish' = onFinish opts,
      onCancel' = onCancel opts,
      appWindowId' = (if window_name w = FIXED_APP_WINDOW_ID_1
                      then FIXED_APP_WINDOW_ID_2 else FIXED_APP_WINDOW_ID_1),
      appOrigin' = (if ToBoolean (isTestEnvironment opts)
                    then TEST_GOOGLE_PAY_ORIGIN else PROD_GOOGLE_PAY_ORIGIN),
      appWindow' = Some (length (windows w)),
      receivedAppOutcome' = False\<rparr>"

definition built_query :: "world \<Rightarrow> AppOptions \<Rightarrow> exn + string" where
  "built_query w opts = getAppQueryString' w opts (getAppWindowFeatures' w opts)"

definition window_busy :: "world \<Rightarrow> bool" where
  "window_busy w =
     (case currentAppContext w of None \<Rightarrow> False | Some cur \<Rightarrow> isAppWindowOpen w (heap w ! cur))"

text \<open>
  The guard of \<open>AppContext.handleMessageEvent\<close> read positively, the test on the action
  that sets the outcome flag, and the runs in which no such message reaches a session.
\<close>

definition accepts :: "nat \<Rightarrow> MessageEvent \<Rightarrow> world \<Rightarrow> bool" where
  "accepts this ev w =
     (isAppWindowOpen w (heap w ! this) \<and>
      origin ev = appOrigin' (heap w ! this) \<and>
      js_get (messageData ev) ''appWindowId'' = JStr (appWindowId' (heap w ! this)) \<and>
      ToBoolean (js_get (messageData ev) ''action''))"

definition is_outcome :: "MessageEvent \<Rightarrow> bool" where
  "is_outcome ev =
     (js_get (messageData ev) ''action'' = JStr ''success'' \<or>
      js_get (messageData ev) ''action'' = JStr ''failure'')"

fun outcome_routed :: "nat \<Rightarrow> event \<Rightarrow> world \<Rightarrow> bool" where
  "outcome_routed this (Message ev) w =
     (listening w \<and> currentAppContext w = Some this \<and> accepts this ev w \<and> is_outcome ev)"
| "outcome_routed this e w = False"

fun never_routed :: "nat \<Rightarrow> event list \<Rightarrow> world \<Rightarrow> bool" where
  "never_routed this [] w = True"
| "never_routed this (e # es) w =
     (\<not> outcome_routed this e w \<and> never_routed this es (step e w))"

section \<open>A sample page\<close>

text \<open>
  The configuration is the one that \<open>UtilsService.openAppWindow\<close> of the demonstration
  application passes; the page has opened nothing yet. Its encoder leaves the sample
  strings as they are, and its printer knows the two fractions of the samples.
\<close>

definition page0 :: world where
  "page0 = \<lparr>window_name = '''', page_origin = ''https://issuer.example'',
     popups_allowed = True, encodeURIComponent = (\<lambda>s. Some s),
     number_digits =
       (\<lambda>x. if x = 1601 / 2 then ''800.5'' else if x = 4801 / 4 then ''1200.25'' else ''''),
     function_source = (\<lambda>f. ''function () {}''),
     method_toString = (\<lambda>f v. Inr ''''),
     windows = [], heap = [], currentAppContext = None, timers = [],
     listening = True, calls = []\<rparr>"

definition cfg0 :: jsval where
  "cfg0 = JObj [(''integratorId'', JStr ''CAPITALONE_1''),
      (''isTestEnvironment'', JBool True),
      (''tokenSetting'', JNum (Fin 1)),
      (''cardSetting'', JNum (Fin 1)),
      (''hl'', JStr ''en-US''),
      (''onReady'', JFunc 1),
      (''onSessionCreated'', JFunc 0)]"

definition opts0 :: AppOptions where
  "opts0 = \<lparr>onSessionCreated = JFunc 0, onReady = JFunc 1, onSuccess = JUndefined,
     onFailure = JUndefined, onFinish = JUndefined, onCancel = JUndefined,
     contentHeight = None, contentWidth = None,
     integratorId = JStr ''CAPITALONE_1'', tokenSetting = JNum (Fin 1),
     cardSetting = JNum (Fin 1), isTestEnvironment = JBool True,
     clientSessionId = JUndefined, hl = JStr ''en-US''\<rparr>"

definition page1 :: world where "page1 = snd (openAppWindow cfg0 page0)"
definition page2 :: world where "page2 = closeAppWindow page1"
definition page3 :: world where "page3 = snd (openAppWindow cfg0 page2)"

text \<open>The page after that session, when the browser blocks new windows.\<close>

definition page2_blocked :: world where
  "page2_blocked = page2\<lparr>popups_allowed := False\<rparr>"

text \<open>Further sample pages and configuration objects.\<close>

definition page_blocked :: world where
  "page_blocked = page0\<lparr>popups_allowed := False\<rparr>"

definition cfg_height_only :: jsval where
  "cfg_height_only = JObj [(''contentHeight'', JNum (Fin 500))]"

definition cfg_height_with_callback :: jsval where
  "cfg_height_with_callback =
     JObj [(''onSessionCreated'', JFunc 0), (''contentHeight'', JNum (Fin 500))]"

definition cfg_500 :: jsval where
  "cfg_500 = JObj [(''onSessionCreated'', JFunc 0),
     (''contentHeight'', JNum (Fin 500)), (''contentWidth'', JNum (Fin 500))]"

definition cfg_900 :: jsval where
  "cfg_900 = JObj [(''onSessionCreated'', JFunc 0),
     (''contentHeight'', JNum (Fin 900)), (''contentWidth'', JNum (Fin 1200))]"

definition cfg_nan :: jsval where
  "cfg_nan = JObj [(''onSessionCreated'', JFunc 0),
     (''contentHeight'', JNum NaN), (''contentWidth'', JNum (Fin 500))]"

definition cfg_zero :: jsval where
  "cfg_zero = JObj [(''onSessionCreated'', JFunc 0),
     (''contentHeight'', JNum (Fin 0)), (''contentWidth'', JNum (Fin 1200))]"

definition cfg_fraction :: jsval where
  "cfg_fraction = JObj [(''onSessionCreated'', JFunc 0),
     (''contentHeight'', JNum (Fin (1601 / 2))), (''contentWidth'', JNum (Fin (4801 / 4)))]"

definition cfg_zero_only :: jsval where
  "cfg_zero_only = JObj [(''contentHeight'', JNum (Fin 0)), (''contentWidth'', JNum (Fin 0))]"

definition cfg_toString_null :: jsval where
  "cfg_toString_null = JObj [(''onSessionCreated'', JFunc 0),
     (''integratorId'', JObj [(''toString'', JNull)])]"

definition opts_toString_null :: AppOptions where
  "opts_toString_null =
     \<lparr>onSessionCreated = JFunc 0, onReady = JUndefined, onSuccess = JUndefined,
      onFailure = JUndefined, onFinish = JUndefined, onCancel = JUndefined,
      contentHeight = None, contentWidth = None,
      integratorId = JObj [(''toString'', JNull)], tokenSetting = JUndefined,
      cardSetting = JUndefined, isTestEnvironment = JUndefined, clientSessionId = JUndefined,
      hl = JUndefined\<rparr>"

definition bare_options :: "jsnum option \<Rightarrow> jsnum option \<Rightarrow> AppOptions" where
  "bare_options h v =
     \<lparr>onSessionCreated = JFunc 0, onReady = JUndefined, onSuccess = JUndefined,
      onFailure = JUndefined, onFinish = JUndefined, onCancel = JUndefined,
      contentHeight = h, contentWidth = v,
      integratorId = JUndefined, tokenSetting = JUndefined, cardSetting = JUndefined,
      isTestEnvironment = JUndefined, clientSessionId = JUndefined, hl = JUndefined\<rparr>"

text \<open>A session with callbacks for the outcome, a message of its window, and what follows.\<close>

definition cfg_callbacks :: jsval where
  "cfg_callbacks = JObj [(''onSessionCreated'', JFunc 0), (''onSuccess'', JFunc 2),
     (''onFinish'', JFunc 3), (''onCancel'', JFunc 4)]"

definition opts_callbacks :: AppOptions where
  "opts_callbacks = \<lparr>onSessionCreated = JFunc 0, onReady = JUndefined, onSuccess = JFunc 2,
     onFailure = JUndefined, onFinish = JFunc 3, onCancel = JFunc 4,
     contentHeight = None, contentWidth = None,
     integratorId = JUndefined, tokenSetting = JUndefined, cardSetting = JUndefined,
     isTestEnvironment = JUndefined, clientSessionId = JUndefined, hl = JUndefined\<rparr>"

definition msg_success :: MessageEvent where
  "msg_success = \<lparr>origin = PROD_GOOGLE_PAY_ORIGIN,
     data = JObj [(''action'', JStr ''success''),
                  (''appWindowId'', JStr FIXED_APP_WINDOW_ID_1),
                  (''payload'', JObj [(''tokenResult'', JStr ''1'')])]\<rparr>"

definition msg_foreign :: MessageEvent where
  "msg_foreign = msg_success\<lparr>origin := ''https://other.example''\<rparr>"

definition live1 :: world where "live1 = snd (openAppWindow cfg_callbacks page0)"
definition live2 :: world where "live2 = AppContext_handleMessageEvent 0 msg_success live1"
definition live3 :: world where "live3 = run [UserCloses 0] live2"
definition live1_closed :: world where "live1_closed = run [UserCloses 0] live1"

section \<open>Assertions and validation\<close>

lemma assert_True [simp]: "assert True c = Inr ()"
  by (simp add: assert_def)

lemma assert_False [simp]: "assert False c = Inl (Error c)"
  by (simp add: assert_def)

lemma assert_eq_Inr [simp]: "(assert b c = Inr u) = b"
  by (simp add: assert_def)

lemma assert_eq_Inl [simp]: "(assert b c = Inl e) = (\<not> b \<and> e = Error c)"
  by (auto simp: assert_def)

lemma assertValueType_eq_Inr [simp]:
  "(assertValueType v ts c = Inr v') = (typeof v \<in> set ts \<and> v' = v)"
  by (auto simp: assertValueType_def assert_def)

lemma assertValueType_eq_Inl [simp]:
  "(assertValueType v ts c = Inl e) = (typeof v \<notin> set ts \<and> e = Error c)"
  by (auto simp: assertValueType_def assert_def)

lemma assertValueType_ok: "typeof v \<in> set ts \<Longrightarrow> assertValueType v ts c = Inr v"
  by simp

lemma assertValueType_bad: "typeof v \<notin> set ts \<Longrightarrow> assertValueType v ts c = Inl (Error c)"
  by simp

lemma and_then_Inl [simp]: "and_then (Inl e) f = Inl e"
  by (simp add: and_then_def)

lemma and_then_Inr [simp]: "and_then (Inr v) f = f v"
  by (simp add: and_then_def)

lemma AppOptions_new_E407:
  "typeof (js_get cfg ''onSessionCreated'') \<noteq> ''function'' \<Longrightarrow>
     AppOptions_new cfg = Inl (Error ''E407'')"
  by (simp add: AppOptions_new_def assertValueType_bad)

lemma and_then_eq_Inr: "(and_then m f = Inr y) = (\<exists>v. m = Inr v \<and> f v = Inr y)"
  by (cases m) simp_all

lemma and_then_eq_Inl: "(and_then m f = Inl e) = (m = Inl e \<or> (\<exists>v. m = Inr v \<and> f v = Inl e))"
  by (cases m) simp_all

text \<open>
  What the building of the query string throws is never an error of the library's own
  making.
\<close>

lemma value_toString_not_Error: "value_toString w v \<noteq> Inl (Error c)"
  by (simp add: value_toString_def split: jsval.splits option.splits sum.splits)

lemma encode_not_Error: "encode w s \<noteq> Inl (Error c)"
  by (simp add: encode_def split: option.splits)

lemma processUrlParam_not_Error: "processUrlParam w k v m \<noteq> Inl (Error c)"
  by (simp add: processUrlParam_def and_then_eq_Inl value_toString_not_Error encode_not_Error)

lemma urlParamMap_not_Error: "urlParamMap w opts f \<noteq> Inl (Error c)"
  by (simp add: urlParamMap_def and_then_eq_Inl processUrlParam_not_Error encode_not_Error)

lemma built_query_not_Error: "built_query w opts \<noteq> Inl (Error c)"
  by (simp add: built_query_def getAppQueryString'_def and_then_eq_Inl urlParamMap_not_Error)

text \<open>A window that was just opened is not closed, so the first poll cannot throw.\<close>

lemma AppContext_new_query_throws:
  "built_query w opts = Inl e \<Longrightarrow> AppContext_new opts w = (Inl e, w)"
  by (simp add: AppContext_new_def built_query_def Let_def)

lemma AppContext_new_blocked:
  "built_query w opts = Inr q \<Longrightarrow> \<not> popups_allowed w \<Longrightarrow>
     AppContext_new opts w = (Inl (Error ''E411''), w)"
  by (simp add: AppContext_new_def built_query_def window_open_def Let_def)

lemma AppContext_new_allowed:
  assumes "built_query w opts = Inr q" "popups_allowed w"
  shows "fst (AppContext_new opts w) = Inr (length (heap w))"
    and "heap (snd (AppContext_new opts w)) = heap w @ [new_context opts w]"
    and "currentAppContext (snd (AppContext_new opts w)) = currentAppContext w"
    and "window_name (snd (AppContext_new opts w)) = window_name w"
    and "calls (snd (AppContext_new opts w)) = calls w"
    and "length (windows (snd (AppContext_new opts w))) = Suc (length (windows w))"
  using assms
  by (simp_all add: AppContext_new_def built_query_def window_open_def Let_def new_context_def
        pollAppWindowClosed'_def setTimeout_poll_def nth_append)

lemma openAppWindow_invalid:
  "typeof cfg = ''object'' \<Longrightarrow> cfg \<noteq> JNull \<Longrightarrow> AppOptions_new cfg = Inl e \<Longrightarrow>
     openAppWindow cfg w = (Inl e, w)"
  by (simp add: openAppWindow_def assertValueType_def)

lemma openAppWindow_not_object:
  "typeof cfg \<noteq> ''object'' \<or> cfg = JNull \<Longrightarrow> openAppWindow cfg w = (Inl (Error ''E406''), w)"
  by (auto simp: openAppWindow_def assertValueType_def)

lemma openAppWindow_valid:
  "typeof cfg = ''object'' \<Longrightarrow> cfg \<noteq> JNull \<Longrightarrow> AppOptions_new cfg = Inr opts \<Longrightarrow>
     openAppWindow cfg w =
       (if window_busy w then (Inl (Error ''E410''), w)
        else case AppContext_new opts w of
               (Inl e, w1) \<Rightarrow> (Inl e, w1)
             | (Inr this, w1) \<Rightarrow> (Inr (), w1\<lparr>currentAppContext := Some this\<rparr>))"
  by (simp add: openAppWindow_def assertValueType_def window_busy_def split: option.splits)

lemma openAppWindow_query_throws:
  "typeof cfg = ''object'' \<Longrightarrow> cfg \<noteq> JNull \<Longrightarrow> AppOptions_new cfg = Inr opts \<Longrightarrow>
   \<not> window_busy w \<Longrightarrow> built_query w opts = Inl e \<Longrightarrow>
     openAppWindow cfg w = (Inl e, w)"
  by (simp add: openAppWindow_valid AppContext_new_query_throws)

lemma openAppWindow_blocked:
  "typeof cfg = ''object'' \<Longrightarrow> cfg \<noteq> JNull \<Longrightarrow> AppOptions_new cfg = Inr opts \<Longrightarrow>
   \<not> window_busy w \<Longrightarrow> built_query w opts = Inr q \<Longrightarrow> \<not> popups_allowed w \<Longrightarrow>
     openAppWindow cfg w = (Inl (Error ''E411''), w)"
  by (simp add: openAppWindow_valid AppContext_new_blocked)

lemma openAppWindow_started:
  assumes "typeof cfg = ''object''" "cfg \<noteq> JNull" "AppOptions_new cfg = Inr opts"
    "\<not> window_busy w" "built_query w opts = Inr q" "popups_allowed w"
  shows "fst (openAppWindow cfg w) = Inr ()"
    and "currentAppContext (snd (openAppWindow cfg w)) = Some (length (heap w))"
    and "heap (snd (openAppWindow cfg w)) = heap w @ [new_context opts w]"
    and "window_name (snd (openAppWindow cfg w)) = window_name w"
proof -
  obtain w1 where w1: "AppContext_new opts w = (Inr (length (heap w)), w1)"
    using AppContext_new_allowed(1) [OF assms(5,6)] by (cases "AppContext_new opts w") auto
  have o: "openAppWindow cfg w = (Inr (), w1\<lparr>currentAppContext := Some (length (heap w))\<rparr>)"
    using assms w1 by (simp add: openAppWindow_valid)
  have h: "heap w1 = heap w @ [new_context opts w]" "window_name w1 = window_name w"
    using AppContext_new_allowed(2,4) [OF assms(5,6)] w1 by simp_all
  show "fst (openAppWindow cfg w) = Inr ()" using o by simp
  show "currentAppContext (snd (openAppWindow cfg w)) = Some (length (heap w))" using o by simp
  show "heap (snd (openAppWindow cfg w)) = heap w @ [new_context opts w]" using o h by simp
  show "window_name (snd (openAppWindow cfg w)) = window_name w" using o h by simp
qed

text \<open>Every way of throwing leaves the state as it was.\<close>

lemma openAppWindow_throws:
  assumes "fst (openAppWindow cfg w) = Inl e"
  shows "snd (openAppWindow cfg w) = w"
proof (cases "typeof cfg = ''object'' \<and> cfg \<noteq> JNull")
  case False
  then show ?thesis using openAppWindow_not_object [of cfg w] by auto
next
  case True
  show ?thesis
  proof (cases "AppOptions_new cfg")
    case (Inl e')
    then show ?thesis using True by (simp add: openAppWindow_invalid)
  next
    case (Inr opts)
    show ?thesis
    proof (cases "window_busy w")
      case True
      then show ?thesis using \<open>typeof cfg = ''object'' \<and> cfg \<noteq> JNull\<close> Inr
        by (simp add: openAppWindow_valid)
    next
      case idle: False
      show ?thesis
      proof (cases "built_query w opts")
        case (Inl e')
        then show ?thesis
          using openAppWindow_query_throws True Inr idle by simp
      next
        case built: (Inr q)
        show ?thesis
        proof (cases "popups_allowed w")
          case True
          then have "fst (openAppWindow cfg w) = Inr ()"
            using openAppWindow_started(1) \<open>typeof cfg = ''object'' \<and> cfg \<noteq> JNull\<close> Inr idle built
            by blast
          with assms show ?thesis by simp
        next
          case False
          then show ?thesis
            using openAppWindow_blocked \<open>typeof cfg = ''object'' \<and> cfg \<noteq> JNull\<close> Inr
              idle built by simp
        qed
      qed
    qed
  qed
qed

lemma cfg0_valid: "AppOptions_new cfg0 = Inr opts0"
  by (simp add: AppOptions_new_def cfg0_def opts0_def assertOptionalCallback_def
        assertValueType_def)

lemmas eval_defs = openAppWindow_def AppContext_new_def window_open_def Let_def
  pollAppWindowClosed'_def setTimeout_poll_def assertValueType_def
  getAppWindowFeatures'_def getAppQueryString'_def urlParamMap_def processUrlParam_def
  joinParams_def value_toString_def makeActionMap'_def truthy_dimension_def ToNumber_def
  encode_def Number_toString_def built_query_def
  isAppWindowOpen_def closeAppWindow_def AppContext_closeAppWindow_def window_close_def
  invoke_def

lemma cfg0_object: "typeof cfg0 = ''object''" "cfg0 \<noteq> JNull"
  by (simp_all add: cfg0_def)

lemma page1_eval:
  "page1 = page0\<lparr>
     windows := [\<lparr>url = ''https://pay.sandbox.google.com/gp/v/a/pushprovisioning/frame?apiVersion=V1_6&origin=https://issuer.example&integratorId=CAPITALONE_1&tokenSetting=1&cardSetting=1&hl=en-US'',
       target = FIXED_APP_WINDOW_ID_1, features = [], closed = False\<rparr>],
     heap := [\<lparr>actionMap' = [(''sessionCreated'', JFunc 0), (''ready'', JFunc 1),
                 (''success'', JUndefined), (''failure'', JUndefined)],
               onFinish' = JUndefined, onCancel' = JUndefined,
               appWindowId' = FIXED_APP_WINDOW_ID_1,
               appOrigin' = TEST_GOOGLE_PAY_ORIGIN, appWindow' = Some 0,
               receivedAppOutcome' = False\<rparr>],
     currentAppContext := Some 0\<rparr>"
  by (simp add: page1_def cfg0_valid cfg0_object opts0_def page0_def eval_defs digits.simps)

lemma page2_eval:
  "page2 = page0\<lparr>
     windows := [\<lparr>url = ''https://pay.sandbox.google.com/gp/v/a/pushprovisioning/frame?apiVersion=V1_6&origin=https://issuer.example&integratorId=CAPITALONE_1&tokenSetting=1&cardSetting=1&hl=en-US'',
       target = FIXED_APP_WINDOW_ID_1, features = [], closed = True\<rparr>],
     heap := [\<lparr>actionMap' = [(''sessionCreated'', JFunc 0), (''ready'', JFunc 1),
                 (''success'', JUndefined), (''failure'', JUndefined)],
               onFinish' = JUndefined, onCancel' = JUndefined,
               appWindowId' = FIXED_APP_WINDOW_ID_1,
               appOrigin' = TEST_GOOGLE_PAY_ORIGIN, appWindow' = Some 0,
               receivedAppOutcome' = False\<rparr>],
     currentAppContext := Some 0\<rparr>"
  by (simp add: page2_def page1_eval page0_def closeAppWindow_def AppContext_closeAppWindow_def
        isAppWindowOpen_def window_close_def)

lemma page3_facts:
  "fst (openAppWindow cfg0 page2) = Inr ()"
  "currentAppContext page3 = Some 1"
  "appWindowId' (heap page3 ! 0) = FIXED_APP_WINDOW_ID_1"
  "appWindowId' (heap page3 ! 1) = FIXED_APP_WINDOW_ID_1"
  by (simp_all add: page3_def page2_eval cfg0_valid cfg0_object opts0_def page0_def eval_defs digits.simps)

text \<open>When the constructor of the options returns, and what it returns.\<close>

lemma AppOptions_new_eq_Inr:
  "(AppOptions_new cfg = Inr opts) =
   (typeof (js_get cfg ''onSessionCreated'') = ''function'' \<and>
    typeof (js_get cfg ''onReady'') \<in> {''function'', ''undefined''} \<and>
    typeof (js_get cfg ''onSuccess'') \<in> {''function'', ''undefined''} \<and>
    typeof (js_get cfg ''onFailure'') \<in> {''function'', ''undefined''} \<and>
    typeof (js_get cfg ''onFinish'') \<in> {''function'', ''undefined''} \<and>
    typeof (js_get cfg ''onCancel'') \<in> {''function'', ''undefined''} \<and>
    typeof (js_get cfg ''contentHeight'') \<in> {''number'', ''undefined''} \<and>
    typeof (js_get cfg ''contentWidth'') = typeof (js_get cfg ''contentHeight'') \<and>
    opts = \<lparr> onSessionCreated = js_get cfg ''onSessionCreated'',
             onReady = js_get cfg ''onReady'',
             onSuccess = js_get cfg ''onSuccess'',
             onFailure = js_get cfg ''onFailure'',
             onFinish = js_get cfg ''onFinish'',
             onCancel = js_get cfg ''onCancel'',
             contentHeight = number_of (js_get cfg ''contentHeight''),
             contentWidth = number_of (js_get cfg ''contentWidth''),
             integratorId = js_get cfg ''integratorId'',
             tokenSetting = js_get cfg ''tokenSetting'',
             cardSetting = js_get cfg ''cardSetting'',
             isTestEnvironment = js_get cfg ''isTestEnvironment'',
             clientSessionId = js_get cfg ''clientSessionId'',
             hl = js_get cfg ''hl'' \<rparr>)"
  unfolding AppOptions_new_def assertOptionalCallback_def and_then_eq_Inr assertValueType_eq_Inr
  by auto

lemma AppOptions_new_E409:
  assumes "typeof (js_get cfg ''onSessionCreated'') = ''function''"
    "typeof (js_get cfg ''onReady'') \<in> {''function'', ''undefined''}"
    "typeof (js_get cfg ''onSuccess'') \<in> {''function'', ''undefined''}"
    "typeof (js_get cfg ''onFailure'') \<in> {''function'', ''undefined''}"
    "typeof (js_get cfg ''onFinish'') \<in> {''function'', ''undefined''}"
    "typeof (js_get cfg ''onCancel'') \<in> {''function'', ''undefined''}"
    "\<not> (typeof (js_get cfg ''contentHeight'') = ''number'' \<and>
        typeof (js_get cfg ''contentWidth'') = ''number'' \<or>
        typeof (js_get cfg ''contentHeight'') = ''undefined'' \<and>
        typeof (js_get cfg ''contentWidth'') = ''undefined'')"
  shows "AppOptions_new cfg = Inl (Error ''E409'')"
proof (cases "typeof (js_get cfg ''contentHeight'') \<in> {''number'', ''undefined''}")
  case False
  then show ?thesis
    using assms(1-6)
    by (simp add: AppOptions_new_def assertOptionalCallback_def assertValueType_ok
          assertValueType_bad)
next
  case True
  then have "typeof (js_get cfg ''contentWidth'') \<noteq> typeof (js_get cfg ''contentHeight'')"
    using assms(7) by auto
  then show ?thesis
    using assms(1-6) True
    by (simp add: AppOptions_new_def assertOptionalCallback_def assertValueType_ok
          assertValueType_bad)
qed

lemma AppOptions_new_not_E409:
  assumes "typeof (js_get cfg ''contentHeight'') = ''number'' \<and>
           typeof (js_get cfg ''contentWidth'') = ''number'' \<or>
           typeof (js_get cfg ''contentHeight'') = ''undefined'' \<and>
           typeof (js_get cfg ''contentWidth'') = ''undefined''"
  shows "AppOptions_new cfg \<noteq> Inl (Error ''E409'')"
  using assms
  unfolding AppOptions_new_def assertOptionalCallback_def and_then_eq_Inl and_then_eq_Inr
    assertValueType_eq_Inr assertValueType_eq_Inl
  by auto

lemma openAppWindow_codes:
  assumes a: "fst (openAppWindow cfg w) = Inl (Error ''E409'')"
  shows "AppOptions_new cfg = Inl (Error ''E409'')"
proof (cases "typeof cfg = ''object'' \<and> cfg \<noteq> JNull")
  case False
  then have "openAppWindow cfg w = (Inl (Error ''E406''), w)"
    by (intro openAppWindow_not_object) blast
  then show ?thesis using a by simp
next
  case True
  show ?thesis
  proof (cases "AppOptions_new cfg")
    case (Inl e)
    then show ?thesis using a True by (simp add: openAppWindow_invalid)
  next
    case (Inr opts)
    have "fst (openAppWindow cfg w) \<noteq> Inl (Error ''E409'')"
    proof (cases "window_busy w")
      case True
      then show ?thesis using \<open>typeof cfg = ''object'' \<and> cfg \<noteq> JNull\<close> Inr
        by (simp add: openAppWindow_valid)
    next
      case idle: False
      show ?thesis
      proof (cases "built_query w opts")
        case (Inl e)
        then have "openAppWindow cfg w = (Inl e, w)"
          using openAppWindow_query_throws True Inr idle by simp
        then show ?thesis using Inl built_query_not_Error [of w opts "''E409''"] by auto
      next
        case built: (Inr q)
        show ?thesis
        proof (cases "popups_allowed w")
          case True
          then have "fst (openAppWindow cfg w) = Inr ()"
            using openAppWindow_started(1) \<open>typeof cfg = ''object'' \<and> cfg \<noteq> JNull\<close> Inr idle built
            by blast
          then show ?thesis by simp
        next
          case False
          then have "openAppWindow cfg w = (Inl (Error ''E411''), w)"
            using openAppWindow_blocked \<open>typeof cfg = ''object'' \<and> cfg \<noteq> JNull\<close> Inr
              idle built by simp
          then show ?thesis by simp
        qed
      qed
    qed
    then show ?thesis using a by simp
  qed
qed

section \<open>Dimensions and the query string\<close>

lemma sample_dimensions_valid:
  "AppOptions_new cfg_500 = Inr (bare_options (Some (Fin 500)) (Some (Fin 500)))"
  "AppOptions_new cfg_900 = Inr (bare_options (Some (Fin 900)) (Some (Fin 1200)))"
  "AppOptions_new cfg_nan = Inr (bare_options (Some NaN) (Some (Fin 500)))"
  "AppOptions_new cfg_zero = Inr (bare_options (Some (Fin 0)) (Some (Fin 1200)))"
  "AppOptions_new cfg_fraction = Inr (bare_options (Some (Fin (1601 / 2))) (Some (Fin (4801 / 4))))"
  by (simp_all add: AppOptions_new_eq_Inr cfg_500_def cfg_900_def cfg_nan_def cfg_zero_def
        cfg_fraction_def bare_options_def)

lemma features_of_numbers:
  assumes "contentHeight opts = Some h" "contentWidth opts = Some v"
    "h \<noteq> Fin 0" "v \<noteq> Fin 0" "h \<noteq> NaN" "v \<noteq> NaN"
  shows "getAppWindowFeatures' w opts =
     ''height='' @ Number_toString w (Math_max MIN_CONTENT_HEIGHT h) @
     '',width='' @ Number_toString w (Math_max MIN_CONTENT_WIDTH v)"
  using assms
  by (simp add: getAppWindowFeatures'_def truthy_dimension_def ToNumber_def joinParams_def)

lemma features_empty:
  "\<not> truthy_dimension (contentHeight opts) \<or> \<not> truthy_dimension (contentWidth opts) \<Longrightarrow>
     getAppWindowFeatures' w opts = ''''"
  by (simp add: getAppWindowFeatures'_def)

text \<open>A safe integer that is not negative prints as its digits.\<close>

lemma Number_toString_safe:
  "0 \<le> k \<Longrightarrow> k \<le> 9007199254740991 \<Longrightarrow>
     Number_toString w (Fin (of_int k)) = digits (nat k)"
  by (simp add: Number_toString_def)

lemma Math_max_of_int:
  "Math_max (Fin (of_int a)) (Fin (of_int b)) = Fin (of_int (max a b))"
  by (simp add: max_def)

lemma keys_Map_set: "fst ` set (Map_set m k v) = insert k (fst ` set m)"
  by (induction m) force+

lemma keys_processUrlParam:
  "processUrlParam w k v m = Inr m' \<Longrightarrow> fst ` set m' \<subseteq> insert k (fst ` set m)"
proof (cases "typeof v \<noteq> ''undefined'' \<and> v \<noteq> JStr '''' \<and> v \<noteq> JNull")
  case False
  assume "processUrlParam w k v m = Inr m'"
  then have "m' = m" using False by (auto simp: processUrlParam_def)
  then show ?thesis by auto
next
  case True
  assume "processUrlParam w k v m = Inr m'"
  then obtain t where "m' = Map_set m k t"
    using True by (auto simp: processUrlParam_def and_then_eq_Inr)
  then show ?thesis by (simp add: keys_Map_set)
qed

lemma processUrlParam_empty [simp]: "processUrlParam w k (JStr '''') m = Inr m"
  by (simp add: processUrlParam_def)

lemma processUrlParam_no_key:
  "processUrlParam w k v m = Inr m' \<Longrightarrow> k' \<noteq> k \<Longrightarrow> k' \<notin> fst ` set m \<Longrightarrow>
     k' \<notin> fst ` set m'"
  using keys_processUrlParam [of w k v m m'] by blast

lemma no_windowFeatures_param:
  assumes "urlParamMap w opts '''' = Inr m"
  shows "''windowFeatures'' \<notin> fst ` set m"
proof -
  obtain o' m1 m2 m3 m4 where
    s1: "processUrlParam w ''integratorId'' (integratorId opts)
           [(''apiVersion'', API_VERSION), (''origin'', o')] = Inr m1"
    and s2: "processUrlParam w ''tokenSetting'' (tokenSetting opts) m1 = Inr m2"
    and s3: "processUrlParam w ''cardSetting'' (cardSetting opts) m2 = Inr m3"
    and s4: "processUrlParam w ''csid'' (clientSessionId opts) m3 = Inr m4"
    and s5: "processUrlParam w ''hl'' (hl opts) m4 = Inr m"
    using assms unfolding urlParamMap_def and_then_eq_Inr processUrlParam_empty by auto
  have "''windowFeatures'' \<notin> fst ` set m1"
    by (rule processUrlParam_no_key [OF s1]) simp_all
  then have "''windowFeatures'' \<notin> fst ` set m2"
    by (intro processUrlParam_no_key [OF s2]) simp_all
  then have "''windowFeatures'' \<notin> fst ` set m3"
    by (intro processUrlParam_no_key [OF s3]) simp_all
  then have "''windowFeatures'' \<notin> fst ` set m4"
    by (intro processUrlParam_no_key [OF s4]) simp_all
  then show ?thesis
    by (intro processUrlParam_no_key [OF s5]) simp_all
qed

lemma AppContext_new_allowed_eq:
  assumes "built_query w opts = Inr q" "popups_allowed w"
  shows "AppContext_new opts w =
    (Inr (length (heap w)),
     (if ToBoolean (onFinish opts) \<or> ToBoolean (onCancel opts)
      then setTimeout_poll (length (heap w)) else id)
       (w\<lparr>windows := windows w @
            [\<lparr>url = appOrigin' (new_context opts w) @ APP_URL_PATH @ q,
              target = appWindowId' (new_context opts w),
              features = getAppWindowFeatures' w opts,
              closed = False\<rparr>],
          heap := heap w @ [new_context opts w]\<rparr>))"
  using assms
  by (simp add: AppContext_new_def built_query_def window_open_def Let_def new_context_def
        pollAppWindowClosed'_def setTimeout_poll_def nth_append)

lemma dimensions_irrelevant:
  assumes "getAppWindowFeatures' w opts = ''''"
  shows "getAppWindowFeatures' w (opts\<lparr>contentHeight := None, contentWidth := None\<rparr>) = ''''"
    and "urlParamMap w (opts\<lparr>contentHeight := None, contentWidth := None\<rparr>) f = urlParamMap w opts f"
    and "built_query w (opts\<lparr>contentHeight := None, contentWidth := None\<rparr>) = built_query w opts"
    and "AppContext_new (opts\<lparr>contentHeight := None, contentWidth := None\<rparr>) w =
         AppContext_new opts w"
proof -
  show a: "getAppWindowFeatures' w (opts\<lparr>contentHeight := None, contentWidth := None\<rparr>) = ''''"
    by (simp add: getAppWindowFeatures'_def truthy_dimension_def)
  show b: "urlParamMap w (opts\<lparr>contentHeight := None, contentWidth := None\<rparr>) f = urlParamMap w opts f"
    by (simp add: urlParamMap_def)
  have c: "new_context (opts\<lparr>contentHeight := None, contentWidth := None\<rparr>) w = new_context opts w"
    by (simp add: new_context_def makeActionMap'_def)
  show d: "built_query w (opts\<lparr>contentHeight := None, contentWidth := None\<rparr>) = built_query w opts"
    by (simp add: built_query_def a assms getAppQueryString'_def urlParamMap_def)
  show "AppContext_new (opts\<lparr>contentHeight := None, contentWidth := None\<rparr>) w =
         AppContext_new opts w"
  proof (cases "built_query w opts")
    case (Inl e)
    then show ?thesis using d by (simp add: AppContext_new_query_throws)
  next
    case (Inr q)
    show ?thesis
    proof (cases "popups_allowed w")
      case True
      then show ?thesis
        using Inr d by (simp add: AppContext_new_allowed_eq [where q = q] a assms c)
    next
      case False
      then show ?thesis using Inr d by (simp add: AppContext_new_blocked [where q = q])
    qed
  qed
qed

section \<open>Messages, polls and runs\<close>

lemma handle_rejected:
  "\<not> accepts this ev w \<Longrightarrow> AppContext_handleMessageEvent this ev w = w"
  by (auto simp: AppContext_handleMessageEvent_def accepts_def Let_def)

lemma handle_accepted:
  "accepts this ev w \<Longrightarrow>
     AppContext_handleMessageEvent this ev w =
       (let action = js_get (messageData ev) ''action'';
            w1 = (if is_outcome ev
                  then w\<lparr>heap := (heap w)[this := (heap w ! this)\<lparr>receivedAppOutcome' := True\<rparr>]\<rparr>
                  else w);
            callback = Map_get (actionMap' (heap w ! this)) action
        in if ToBoolean callback
           then invoke this callback (js_get (messageData ev) ''payload'') w1
           else w1)"
  by (simp add: AppContext_handleMessageEvent_def accepts_def Let_def is_outcome_def)

lemma handle_no_outcome_heap:
  "\<not> (accepts this ev w \<and> is_outcome ev) \<Longrightarrow>
     heap (AppContext_handleMessageEvent this ev w) = heap w"
  by (cases "accepts this ev w") (simp_all add: handle_rejected handle_accepted Let_def invoke_def)

lemma handle_heap:
  "heap (AppContext_handleMessageEvent this ev w) = heap w \<or>
   heap (AppContext_handleMessageEvent this ev w) =
     (heap w)[this := (heap w ! this)\<lparr>receivedAppOutcome' := True\<rparr>]"
  by (cases "accepts this ev w") (simp_all add: handle_rejected handle_accepted Let_def invoke_def)

lemma poll_heap [simp]: "heap (snd (pollAppWindowClosed' this w)) = heap w"
  by (simp add: pollAppWindowClosed'_def Let_def invoke_def setTimeout_poll_def
        split: option.splits)

lemma closeAppWindow_heap [simp]: "heap (closeAppWindow w) = heap w"
  by (simp add: closeAppWindow_def AppContext_closeAppWindow_def Let_def window_close_def
        split: option.splits)

lemma openAppWindow_returns:
  assumes "fst (openAppWindow cfg w) = Inr ()"
  shows "\<exists>opts q. typeof cfg = ''object'' \<and> cfg \<noteq> JNull \<and> AppOptions_new cfg = Inr opts \<and>
           \<not> window_busy w \<and> built_query w opts = Inr q \<and> popups_allowed w"
proof -
  have o: "typeof cfg = ''object'' \<and> cfg \<noteq> JNull"
  proof (rule ccontr)
    assume "\<not> (typeof cfg = ''object'' \<and> cfg \<noteq> JNull)"
    then have "openAppWindow cfg w = (Inl (Error ''E406''), w)"
      by (intro openAppWindow_not_object) blast
    then show False using assms by simp
  qed
  obtain opts where v: "AppOptions_new cfg = Inr opts"
  proof (cases "AppOptions_new cfg")
    case (Inl e)
    then have "openAppWindow cfg w = (Inl e, w)"
      using o by (simp add: openAppWindow_invalid)
    then show ?thesis using assms by simp
  next
    case (Inr opts)
    then show ?thesis using that by blast
  qed
  have idle: "\<not> window_busy w"
  proof
    assume "window_busy w"
    then have "openAppWindow cfg w = (Inl (Error ''E410''), w)"
      using o v by (simp add: openAppWindow_valid)
    then show False using assms by simp
  qed
  obtain q where built: "built_query w opts = Inr q"
  proof (cases "built_query w opts")
    case (Inl e)
    then have "openAppWindow cfg w = (Inl e, w)"
      using o v idle by (simp add: openAppWindow_query_throws)
    then show ?thesis using assms by simp
  next
    case (Inr q)
    then show ?thesis using that by blast
  qed
  have "popups_allowed w"
  proof (rule ccontr)
    assume "\<not> popups_allowed w"
    then have "openAppWindow cfg w = (Inl (Error ''E411''), w)"
      using o v idle built by (simp add: openAppWindow_blocked)
    then show False using assms by simp
  qed
  then show ?thesis using o v idle built by blast
qed

lemma openAppWindow_heap:
  "heap (snd (openAppWindow cfg w)) = heap w \<or>
   (\<exists>c. heap (snd (openAppWindow cfg w)) = heap w @ [c])"
proof (cases "fst (openAppWindow cfg w)")
  case (Inl e)
  then show ?thesis using openAppWindow_throws [of cfg w e] by simp
next
  case (Inr u)
  then have "fst (openAppWindow cfg w) = Inr ()" by simp
  then obtain opts q where "typeof cfg = ''object''" "cfg \<noteq> JNull" "AppOptions_new cfg = Inr opts"
    "\<not> window_busy w" "built_query w opts = Inr q" "popups_allowed w"
    using openAppWindow_returns by blast
  then show ?thesis using openAppWindow_started(3) [of cfg opts w q] by blast
qed

text \<open>
  No event removes a context from the store or changes one, except that the outcome flag
  of a context may be set.
\<close>

lemma step_heap:
  assumes "r < length (heap w)"
  shows "r < length (heap (step e w)) \<and>
         (heap (step e w) ! r = heap w ! r \<or>
          heap (step e w) ! r = (heap w ! r)\<lparr>receivedAppOutcome' := True\<rparr>)"
proof (cases e)
  case (OpenCall cfg)
  then show ?thesis using assms openAppWindow_heap [of cfg w] by (auto simp: nth_append)
next
  case (Message ev)
  show ?thesis
  proof (cases "listening w")
    case False
    then show ?thesis using Message assms by simp
  next
    case True
    show ?thesis
    proof (cases "currentAppContext w")
      case None
      then show ?thesis using Message assms by (simp add: handleMessageEvent_def)
    next
      case (Some cur)
      then have "step e w = AppContext_handleMessageEvent cur ev w"
        using Message True by (simp add: handleMessageEvent_def)
      then show ?thesis
        using handle_heap [of cur ev w] assms by (cases "cur = r") auto
    qed
  qed
next
  case (UserCloses h)
  then show ?thesis using assms by (simp add: window_close_def)
next
  case Unload
  then show ?thesis using assms by (simp add: handleUnloadEvent_def)
qed (use assms in simp_all)

lemma run_heap:
  "r < length (heap w) \<Longrightarrow>
     r < length (heap (run es w)) \<and>
     (heap (run es w) ! r = heap w ! r \<or>
      heap (run es w) ! r = (heap w ! r)\<lparr>receivedAppOutcome' := True\<rparr>)"
proof (induction es arbitrary: w)
  case Nil
  then show ?case by simp
next
  case (Cons e es)
  have s: "r < length (heap (step e w)) \<and>
         (heap (step e w) ! r = heap w ! r \<or>
          heap (step e w) ! r = (heap w ! r)\<lparr>receivedAppOutcome' := True\<rparr>)"
    using Cons.prems by (rule step_heap)
  then have "r < length (heap (run es (step e w))) \<and>
     (heap (run es (step e w)) ! r = heap (step e w) ! r \<or>
      heap (run es (step e w)) ! r = (heap (step e w) ! r)\<lparr>receivedAppOutcome' := True\<rparr>)"
    using Cons.IH [of "step e w"] by blast
  then show ?case using s by auto
qed

lemma step_unrouted:
  assumes "r < length (heap w)" "\<not> outcome_routed r e w"
  shows "heap (step e w) ! r = heap w ! r"
proof (cases e)
  case (OpenCall cfg)
  then show ?thesis using assms openAppWindow_heap [of cfg w] by (auto simp: nth_append)
next
  case (Message ev)
  show ?thesis
  proof (cases "listening w")
    case False
    then show ?thesis using Message by simp
  next
    case True
    show ?thesis
    proof (cases "currentAppContext w")
      case None
      then show ?thesis using Message by (simp add: handleMessageEvent_def)
    next
      case (Some cur)
      then have s: "step e w = AppContext_handleMessageEvent cur ev w"
        using Message True by (simp add: handleMessageEvent_def)
      show ?thesis
      proof (cases "cur = r")
        case True
        then have "\<not> (accepts cur ev w \<and> is_outcome ev)"
          using assms(2) Message Some \<open>listening w\<close> by simp
        then show ?thesis using s handle_no_outcome_heap by simp
      next
        case False
        then show ?thesis using s handle_heap [of cur ev w] by auto
      qed
    qed
  qed
next
  case (UserCloses h)
  then show ?thesis by (simp add: window_close_def)
next
  case Unload
  then show ?thesis by (simp add: handleUnloadEvent_def)
qed simp_all

lemma run_unrouted:
  "r < length (heap w) \<Longrightarrow> never_routed r es w \<Longrightarrow> heap (run es w) ! r = heap w ! r"
proof (induction es arbitrary: w)
  case Nil
  then show ?case by simp
next
  case (Cons e es)
  have "r < length (heap (step e w))" using Cons.prems(1) step_heap by blast
  moreover have "never_routed r es (step e w)" using Cons.prems(2) by simp
  ultimately have "heap (run es (step e w)) ! r = heap (step e w) ! r"
    by (rule Cons.IH)
  moreover have "heap (step e w) ! r = heap w ! r"
    using Cons.prems by (intro step_unrouted) simp_all
  ultimately show ?case by simp
qed


lemma poll_closed_finish:
  assumes "appWindow' (heap w ! this) = Some h" "closed (windows w ! h)"
    "ToBoolean (onFinish' (heap w ! this))" "receivedAppOutcome' (heap w ! this)"
  shows "pollAppWindowClosed' this w =
    (Inr (), w\<lparr>calls := calls w @
       [\<lparr>callee = onFinish' (heap w ! this), arg = JObj [], outcome_at_call = True\<rparr>]\<rparr>)"
  using assms by (simp add: pollAppWindowClosed'_def Let_def invoke_def)

lemma poll_closed_cancel:
  assumes "appWindow' (heap w ! this) = Some h" "closed (windows w ! h)"
    "ToBoolean (onCancel' (heap w ! this))" "\<not> receivedAppOutcome' (heap w ! this)"
  shows "pollAppWindowClosed' this w =
    (Inr (), w\<lparr>calls := calls w @
       [\<lparr>callee = onCancel' (heap w ! this), arg = JObj [], outcome_at_call = False\<rparr>]\<rparr>)"
  using assms by (simp add: pollAppWindowClosed'_def Let_def invoke_def)

lemma handle_outcome:
  assumes "this < length (heap w)" "accepts this ev w" "is_outcome ev"
  shows "heap (AppContext_handleMessageEvent this ev w) ! this =
           (heap w ! this)\<lparr>receivedAppOutcome' := True\<rparr>"
    and "length (heap (AppContext_handleMessageEvent this ev w)) = length (heap w)"
    and "ToBoolean (Map_get (actionMap' (heap w ! this)) (js_get (messageData ev) ''action'')) \<Longrightarrow>
         calls (AppContext_handleMessageEvent this ev w) =
           calls w @
           [\<lparr>callee = Map_get (actionMap' (heap w ! this)) (js_get (messageData ev) ''action''),
             arg = js_get (messageData ev) ''payload'',
             outcome_at_call = True\<rparr>]"
  using assms by (simp_all add: handle_accepted Let_def invoke_def)

lemma cfg_callbacks_valid:
  "typeof cfg_callbacks = ''object''" "cfg_callbacks \<noteq> JNull"
  "AppOptions_new cfg_callbacks = Inr opts_callbacks"
  by (simp_all add: AppOptions_new_eq_Inr cfg_callbacks_def opts_callbacks_def)

lemma live1_eval:
  "fst (openAppWindow cfg_callbacks page0) = Inr ()"
  "live1 = page0\<lparr>
     windows := [\<lparr>url = ''https://pay.google.com/gp/v/a/pushprovisioning/frame?apiVersion=V1_6&origin=https://issuer.example'',
       target = FIXED_APP_WINDOW_ID_1, features = [], closed = False\<rparr>],
     heap := [\<lparr>actionMap' = [(''sessionCreated'', JFunc 0), (''ready'', JUndefined),
                 (''success'', JFunc 2), (''failure'', JUndefined)],
               onFinish' = JFunc 3, onCancel' = JFunc 4,
               appWindowId' = FIXED_APP_WINDOW_ID_1,
               appOrigin' = PROD_GOOGLE_PAY_ORIGIN, appWindow' = Some 0,
               receivedAppOutcome' = False\<rparr>],
     currentAppContext := Some 0,
     timers := [0]\<rparr>"
  by (simp_all add: live1_def cfg_callbacks_valid opts_callbacks_def page0_def eval_defs)

lemma live1_accepts: "accepts 0 msg_success live1" "is_outcome msg_success"
  by (simp_all add: accepts_def is_outcome_def live1_eval msg_success_def messageData_def
        isAppWindowOpen_def page0_def)

lemma live2_eval:
  "live2 = live1\<lparr>
     heap := [\<lparr>actionMap' = [(''sessionCreated'', JFunc 0), (''ready'', JUndefined),
                 (''success'', JFunc 2), (''failure'', JUndefined)],
               onFinish' = JFunc 3, onCancel' = JFunc 4,
               appWindowId' = FIXED_APP_WINDOW_ID_1,
               appOrigin' = PROD_GOOGLE_PAY_ORIGIN, appWindow' = Some 0,
               receivedAppOutcome' = True\<rparr>],
     calls := [\<lparr>callee = JFunc 2, arg = JObj [(''tokenResult'', JStr ''1'')],
                outcome_at_call = True\<rparr>]\<rparr>"
  unfolding live2_def
  by (simp add: handle_accepted [OF live1_accepts(1)] live1_accepts(2) Let_def invoke_def
        Map_get_def) (simp add: live1_eval msg_success_def messageData_def page0_def)

lemma live3_facts:
  "appWindow' (heap live3 ! 0) = Some 0" "closed (windows live3 ! 0)"
  "ToBoolean (onFinish' (heap live3 ! 0))" "onFinish' (heap live3 ! 0) = JFunc 3"
  by (simp_all add: live3_def live2_eval live1_eval page0_def window_close_def)

lemma live1_closed_facts:
  "appWindow' (heap live1_closed ! 0) = Some 0" "closed (windows live1_closed ! 0)"
  "ToBoolean (onCancel' (heap live1_closed ! 0))" "onCancel' (heap live1_closed ! 0) = JFunc 4"
  "never_routed 0 [UserCloses 0] live1" "currentAppContext live1 = Some 0"
  by (simp_all add: live1_closed_def live1_eval page0_def window_close_def)


lemma openAppWindow_installs:
  assumes "fst (openAppWindow cfg w) = Inr ()"
  shows "\<exists>opts. currentAppContext (snd (openAppWindow cfg w)) = Some (length (heap w)) \<and>
           heap (snd (openAppWindow cfg w)) = heap w @ [new_context opts w] \<and>
           \<not> window_busy w"
proof -
  obtain opts q where "typeof cfg = ''object''" "cfg \<noteq> JNull" "AppOptions_new cfg = Inr opts"
    "\<not> window_busy w" "built_query w opts = Inr q" "popups_allowed w"
    using assms openAppWindow_returns by blast
  then show ?thesis using openAppWindow_started(2,3) [of cfg opts w q] by blast
qed

text \<open>The sample configurations on the sample page.\<close>

lemma page0_opens: "fst (openAppWindow cfg0 page0) = Inr ()"
  by (simp add: cfg0_valid cfg0_object opts0_def page0_def eval_defs digits.simps)

lemma sample_queries:
  "built_query page0 opts0 =
     Inr ''?apiVersion=V1_6&origin=https://issuer.example&integratorId=CAPITALONE_1&tokenSetting=1&cardSetting=1&hl=en-US''"
  "built_query page2 opts0 =
     Inr ''?apiVersion=V1_6&origin=https://issuer.example&integratorId=CAPITALONE_1&tokenSetting=1&cardSetting=1&hl=en-US''"
  "built_query page2_blocked opts0 =
     Inr ''?apiVersion=V1_6&origin=https://issuer.example&integratorId=CAPITALONE_1&tokenSetting=1&cardSetting=1&hl=en-US''"
  "built_query page_blocked opts0 =
     Inr ''?apiVersion=V1_6&origin=https://issuer.example&integratorId=CAPITALONE_1&tokenSetting=1&cardSetting=1&hl=en-US''"
  by (simp_all add: page2_blocked_def page_blocked_def page2_eval opts0_def page0_def
        built_query_def getAppWindowFeatures'_def getAppQueryString'_def urlParamMap_def
        processUrlParam_def joinParams_def value_toString_def truthy_dimension_def encode_def
        Number_toString_def digits.simps)

lemma cfg_toString_null_valid:
  "typeof cfg_toString_null = ''object''" "cfg_toString_null \<noteq> JNull"
  "AppOptions_new cfg_toString_null = Inr opts_toString_null"
  by (simp_all add: AppOptions_new_eq_Inr cfg_toString_null_def opts_toString_null_def)

lemma toString_null_throws:
  "built_query page0 opts_toString_null = Inl TypeError"
  "built_query page2 opts_toString_null = Inl TypeError"
  by (simp_all add: page2_eval page0_def opts_toString_null_def built_query_def
        getAppWindowFeatures'_def getAppQueryString'_def urlParamMap_def processUrlParam_def
        value_toString_def encode_def truthy_dimension_def)

section \<open>Properties of the specification\<close>

subsection \<open>The required callback\<close>

text \<open>
  Claim C5. For every configuration object in which \<open>onSessionCreated\<close> is absent or is
  not a function, \<open>openAppWindow\<close> throws \<open>E407\<close>, and no session is created: the page is
  left as it was, with the same \<open>currentAppContext\<close>, the same store and no new window.
\<close>

theorem missing_session_callback_throws:
  assumes "case map_of ps ''onSessionCreated'' of
             None \<Rightarrow> True | Some v \<Rightarrow> typeof v \<noteq> ''function''"
  shows "openAppWindow (JObj ps) w = (Inl (Error ''E407''), w)"
proof -
  have "typeof (js_get (JObj ps) ''onSessionCreated'') \<noteq> ''function''"
    using assms by (simp split: option.splits)
  then have "AppOptions_new (JObj ps) = Inl (Error ''E407'')"
    by (rule AppOptions_new_E407)
  then show ?thesis by (simp add: openAppWindow_invalid)
qed

theorem missing_session_callback_throws_witness:
  "openAppWindow (JObj [(''onReady'', JFunc 1)]) page0 = (Inl (Error ''E407''), page0)
   \<and> openAppWindow (JObj [(''onSessionCreated'', JStr ''f'')]) page0 = (Inl (Error ''E407''), page0)"
  using missing_session_callback_throws [of "[(''onReady'', JFunc 1)]" page0]
    missing_session_callback_throws [of "[(''onSessionCreated'', JStr ''f'')]" page0]
  by simp

subsection \<open>A call that throws\<close>



subsection \<open>Opening while a window is open\<close>




subsection \<open>The content dimensions\<close>





subsection \<open>The window features\<close>

text \<open>
  Claim C7, as stated, fails at \<open>contentHeight = NaN\<close>: the value is a number and is not
  zero, the configuration is valid, and the feature string is empty, not
  \<open>height=NaN,width=1100\<close>.
\<close>

theorem window_features_counterexample:
  "AppOptions_new cfg_nan = Inr (bare_options (Some NaN) (Some (Fin 500))) \<and>
   js_get cfg_nan ''contentHeight'' = JNum NaN \<and>
   js_get cfg_nan ''contentWidth'' = JNum (Fin 500) \<and>
   NaN \<noteq> Fin 0 \<and>
   getAppWindowFeatures' page0 (bare_options (Some NaN) (Some (Fin 500))) = '''' \<and>
   getAppWindowFeatures' page0 (bare_options (Some NaN) (Some (Fin 500))) \<noteq>
     ''height='' @ Number_toString page0 (Math_max MIN_CONTENT_HEIGHT NaN) @
     '',width='' @ Number_toString page0 (Math_max MIN_CONTENT_WIDTH (Fin 500))"
proof -
  have "getAppWindowFeatures' page0 (bare_options (Some NaN) (Some (Fin 500))) = ''''"
    by (rule features_empty) (simp add: truthy_dimension_def bare_options_def)
  moreover have "js_get cfg_nan ''contentHeight'' = JNum NaN"
    "js_get cfg_nan ''contentWidth'' = JNum (Fin 500)"
    by (simp_all add: cfg_nan_def)
  ultimately show ?thesis
    using sample_dimensions_valid(3) by simp
qed

text \<open>
  Claim C7, amended. For every valid configuration with \<open>contentHeight\<close> and
  \<open>contentWidth\<close> numbers that are neither zero nor \<open>NaN\<close>, the feature string is
  \<open>height=<max(700, contentHeight)>,width=<max(1100, contentWidth)>\<close>, each number printed
  by \<open>Number.prototype.toString\<close>. For finite dimensions, fractional or not, the two
  numbers are the maxima of the reals; where the dimensions are integers and the maxima
  are safe integers, they print as their decimal digits. In particular 500 by 500 gives
  \<open>height=700,width=1100\<close> and 900 by 1200 gives \<open>height=900,width=1200\<close>.
\<close>

theorem window_features_floor:
  "(AppOptions_new cfg = Inr opts \<and>
    js_get cfg ''contentHeight'' = JNum h \<and> js_get cfg ''contentWidth'' = JNum v \<and>
    h \<noteq> Fin 0 \<and> v \<noteq> Fin 0 \<and> h \<noteq> NaN \<and> v \<noteq> NaN \<longrightarrow>
      getAppWindowFeatures' w opts =
        ''height='' @ Number_toString w (Math_max MIN_CONTENT_HEIGHT h) @
        '',width='' @ Number_toString w (Math_max MIN_CONTENT_WIDTH v)) \<and>
   (AppOptions_new cfg = Inr opts \<and>
    js_get cfg ''contentHeight'' = JNum (Fin x) \<and> js_get cfg ''contentWidth'' = JNum (Fin y) \<and>
    x \<noteq> 0 \<and> y \<noteq> 0 \<longrightarrow>
      getAppWindowFeatures' w opts =
        ''height='' @ Number_toString w (Fin (max 700 x)) @
        '',width='' @ Number_toString w (Fin (max 1100 y))) \<and>
   (AppOptions_new cfg = Inr opts \<and>
    js_get cfg ''contentHeight'' = JNum (Fin (of_int a)) \<and>
    js_get cfg ''contentWidth'' = JNum (Fin (of_int b)) \<and>
    a \<noteq> 0 \<and> b \<noteq> 0 \<and> a \<le> 9007199254740991 \<and> b \<le> 9007199254740991 \<longrightarrow>
      getAppWindowFeatures' w opts =
        ''height='' @ digits (nat (max 700 a)) @ '',width='' @ digits (nat (max 1100 b))) \<and>
   (AppOptions_new cfg = Inr opts \<and>
    js_get cfg ''contentHeight'' = JNum (Fin 500) \<and>
    js_get cfg ''contentWidth'' = JNum (Fin 500) \<longrightarrow>
      getAppWindowFeatures' w opts = ''height=700,width=1100'') \<and>
   (AppOptions_new cfg = Inr opts \<and>
    js_get cfg ''contentHeight'' = JNum (Fin 900) \<and>
    js_get cfg ''contentWidth'' = JNum (Fin 1200) \<longrightarrow>
      getAppWindowFeatures' w opts = ''height=900,width=1200'')"
proof -
  have dims: "contentHeight opts = number_of (js_get cfg ''contentHeight'') \<and>
              contentWidth opts = number_of (js_get cfg ''contentWidth'')"
    if "AppOptions_new cfg = Inr opts"
    using that by (simp add: AppOptions_new_eq_Inr)
  have general: "getAppWindowFeatures' w opts =
        ''height='' @ Number_toString w (Math_max MIN_CONTENT_HEIGHT h') @
        '',width='' @ Number_toString w (Math_max MIN_CONTENT_WIDTH v')"
    if "AppOptions_new cfg = Inr opts" "js_get cfg ''contentHeight'' = JNum h'"
      "js_get cfg ''contentWidth'' = JNum v'" "h' \<noteq> Fin 0" "v' \<noteq> Fin 0" "h' \<noteq> NaN" "v' \<noteq> NaN"
    for h' v'
    using dims [OF that(1)] that(2-) by (intro features_of_numbers) simp_all
  have ints: "getAppWindowFeatures' w opts =
        ''height='' @ digits (nat (max 700 a)) @ '',width='' @ digits (nat (max 1100 b))"
    if "AppOptions_new cfg = Inr opts" "js_get cfg ''contentHeight'' = JNum (Fin (of_int a))"
      "js_get cfg ''contentWidth'' = JNum (Fin (of_int b))" "a \<noteq> 0" "b \<noteq> 0"
      "a \<le> 9007199254740991" "b \<le> 9007199254740991"
  proof -
    have m: "Math_max MIN_CONTENT_HEIGHT (Fin (of_int a)) = Fin (of_int (max 700 a))"
      "Math_max MIN_CONTENT_WIDTH (Fin (of_int b)) = Fin (of_int (max 1100 b))"
      by (simp_all add: max_def)
    have p: "Number_toString w (Fin (of_int (max 700 a))) = digits (nat (max 700 a))"
      "Number_toString w (Fin (of_int (max 1100 b))) = digits (nat (max 1100 b))"
      using that(6,7) by (intro Number_toString_safe; simp)+
    show ?thesis
      using general [of "Fin (of_int a)" "Fin (of_int b)"] that(1-5) m p by simp
  qed
  have e1: "Number_toString w (Fin 700) = ''700''" "Number_toString w (Fin 1100) = ''1100''"
    "Number_toString w (Fin 900) = ''900''" "Number_toString w (Fin 1200) = ''1200''"
    by (simp_all add: Number_toString_def digits.simps)
  show ?thesis
    using general [of h v] general [of "Fin x" "Fin y"] ints
      general [of "Fin 500" "Fin 500"] general [of "Fin 900" "Fin 1200"] e1
    by simp
qed

theorem window_features_floor_witness:
  "getAppWindowFeatures' page0 (bare_options (Some (Fin 500)) (Some (Fin 500))) =
     ''height=700,width=1100'' \<and>
   getAppWindowFeatures' page0 (bare_options (Some (Fin 900)) (Some (Fin 1200))) =
     ''height=900,width=1200'' \<and>
   getAppWindowFeatures' page0 (bare_options (Some (Fin (1601 / 2))) (Some (Fin (4801 / 4)))) =
     ''height=800.5,width=1200.25''"
proof -
  have a: "getAppWindowFeatures' page0 (bare_options (Some (Fin 500)) (Some (Fin 500))) =
     ''height=700,width=1100''"
    using window_features_floor [of cfg_500 "bare_options (Some (Fin 500)) (Some (Fin 500))"
        _ _ page0] sample_dimensions_valid(1)
    by (simp add: cfg_500_def)
  have b: "getAppWindowFeatures' page0 (bare_options (Some (Fin 900)) (Some (Fin 1200))) =
     ''height=900,width=1200''"
    using window_features_floor [of cfg_900 "bare_options (Some (Fin 900)) (Some (Fin 1200))"
        _ _ page0] sample_dimensions_valid(2)
    by (simp add: cfg_900_def)
  have p: "Number_toString page0 (Fin (1601 / 2)) = ''800.5''"
    "Number_toString page0 (Fin (4801 / 4)) = ''1200.25''"
    by (simp_all add: Number_toString_def page0_def)
  have "getAppWindowFeatures' page0 (bare_options (Some (Fin (1601 / 2))) (Some (Fin (4801 / 4)))) =
      ''height='' @ Number_toString page0 (Fin (max 700 (1601 / 2))) @
      '',width='' @ Number_toString page0 (Fin (max 1100 (4801 / 4)))"
    using window_features_floor [of cfg_fraction
        "bare_options (Some (Fin (1601 / 2))) (Some (Fin (4801 / 4)))"
        _ _ page0 "1601 / 2" "4801 / 4"] sample_dimensions_valid(5)
    by (simp add: cfg_fraction_def)
  then have c: "getAppWindowFeatures' page0
      (bare_options (Some (Fin (1601 / 2))) (Some (Fin (4801 / 4)))) =
      ''height=800.5,width=1200.25''"
    using p by simp
  show ?thesis
    using a b c by blast
qed

subsection \<open>A dimension of zero\<close>

text \<open>
  Claim C9, as stated, fails on a configuration object that holds only the two
  dimensions, both zero: the callbacks are checked first, so validation does not succeed
  but throws \<open>E407\<close>.
\<close>

theorem zero_dimension_counterexample:
  "js_get cfg_zero_only ''contentHeight'' = JNum (Fin 0) \<and>
   js_get cfg_zero_only ''contentWidth'' = JNum (Fin 0) \<and>
   AppOptions_new cfg_zero_only = Inl (Error ''E407'') \<and>
   fst (openAppWindow cfg_zero_only page0) = Inl (Error ''E407'')"
proof -
  have "AppOptions_new cfg_zero_only = Inl (Error ''E407'')"
    by (rule AppOptions_new_E407) (simp add: cfg_zero_only_def)
  moreover from this have "openAppWindow cfg_zero_only page0 = (Inl (Error ''E407''), page0)"
    by (simp add: openAppWindow_invalid cfg_zero_only_def)
  ultimately show ?thesis by (simp add: cfg_zero_only_def)
qed

text \<open>
  Claim C9, amended. For every configuration whose callback fields pass their checks
  (\<open>onSessionCreated\<close> a function, each of the five optional callbacks a function or
  undefined) and in which \<open>contentHeight\<close> and \<open>contentWidth\<close> are both numbers and at least
  one is zero, validation succeeds, yet the feature string of the validated options is
  empty: no floor is applied, the parameter map (when it is built) has no
  \<open>windowFeatures\<close> entry, and the query string and the whole constructor of the session
  are those of the same options with both dimensions absent.
\<close>

theorem zero_dimension_features:
  "js_get cfg ''contentHeight'' = JNum h \<and> js_get cfg ''contentWidth'' = JNum v \<and>
   (h = Fin 0 \<or> v = Fin 0) \<and>
   typeof (js_get cfg ''onSessionCreated'') = ''function'' \<and>
   typeof (js_get cfg ''onReady'') \<in> {''function'', ''undefined''} \<and>
   typeof (js_get cfg ''onSuccess'') \<in> {''function'', ''undefined''} \<and>
   typeof (js_get cfg ''onFailure'') \<in> {''function'', ''undefined''} \<and>
   typeof (js_get cfg ''onFinish'') \<in> {''function'', ''undefined''} \<and>
   typeof (js_get cfg ''onCancel'') \<in> {''function'', ''undefined''} \<longrightarrow>
     (\<exists>validated. AppOptions_new cfg = Inr validated) \<and>
     (AppOptions_new cfg = Inr opts \<longrightarrow>
        getAppWindowFeatures' w opts = '''' \<and>
        (urlParamMap w opts (getAppWindowFeatures' w opts) = Inr m \<longrightarrow>
           ''windowFeatures'' \<notin> fst ` set m) \<and>
        getAppQueryString' w opts (getAppWindowFeatures' w opts) =
          getAppQueryString' w (opts\<lparr>contentHeight := None, contentWidth := None\<rparr>)
            (getAppWindowFeatures' w (opts\<lparr>contentHeight := None, contentWidth := None\<rparr>)) \<and>
        AppContext_new opts w =
          AppContext_new (opts\<lparr>contentHeight := None, contentWidth := None\<rparr>) w)"
proof (intro impI)
  assume a: "js_get cfg ''contentHeight'' = JNum h \<and> js_get cfg ''contentWidth'' = JNum v \<and>
   (h = Fin 0 \<or> v = Fin 0) \<and>
   typeof (js_get cfg ''onSessionCreated'') = ''function'' \<and>
   typeof (js_get cfg ''onReady'') \<in> {''function'', ''undefined''} \<and>
   typeof (js_get cfg ''onSuccess'') \<in> {''function'', ''undefined''} \<and>
   typeof (js_get cfg ''onFailure'') \<in> {''function'', ''undefined''} \<and>
   typeof (js_get cfg ''onFinish'') \<in> {''function'', ''undefined''} \<and>
   typeof (js_get cfg ''onCancel'') \<in> {''function'', ''undefined''}"
  have ex: "\<exists>validated. AppOptions_new cfg = Inr validated"
    using a unfolding AppOptions_new_eq_Inr by simp
  have rest: "getAppWindowFeatures' w opts = '''' \<and>
        (urlParamMap w opts (getAppWindowFeatures' w opts) = Inr m \<longrightarrow>
           ''windowFeatures'' \<notin> fst ` set m) \<and>
        getAppQueryString' w opts (getAppWindowFeatures' w opts) =
          getAppQueryString' w (opts\<lparr>contentHeight := None, contentWidth := None\<rparr>)
            (getAppWindowFeatures' w (opts\<lparr>contentHeight := None, contentWidth := None\<rparr>)) \<and>
        AppContext_new opts w =
          AppContext_new (opts\<lparr>contentHeight := None, contentWidth := None\<rparr>) w"
    if v: "AppOptions_new cfg = Inr opts"
  proof -
    have "contentHeight opts = Some h" "contentWidth opts = Some v"
      using v a by (simp_all add: AppOptions_new_eq_Inr)
    then have e: "getAppWindowFeatures' w opts = ''''"
      using a by (intro features_empty) (auto simp: truthy_dimension_def)
    have k: "urlParamMap w opts '''' = Inr m \<Longrightarrow> ''windowFeatures'' \<notin> fst ` set m"
      by (rule no_windowFeatures_param)
    show ?thesis
      using e k dimensions_irrelevant(3,4) [OF e]
      by (simp add: built_query_def)
  qed
  show "(\<exists>validated. AppOptions_new cfg = Inr validated) \<and>
     (AppOptions_new cfg = Inr opts \<longrightarrow>
        getAppWindowFeatures' w opts = '''' \<and>
        (urlParamMap w opts (getAppWindowFeatures' w opts) = Inr m \<longrightarrow>
           ''windowFeatures'' \<notin> fst ` set m) \<and>
        getAppQueryString' w opts (getAppWindowFeatures' w opts) =
          getAppQueryString' w (opts\<lparr>contentHeight := None, contentWidth := None\<rparr>)
            (getAppWindowFeatures' w (opts\<lparr>contentHeight := None, contentWidth := None\<rparr>)) \<and>
        AppContext_new opts w =
          AppContext_new (opts\<lparr>contentHeight := None, contentWidth := None\<rparr>) w)"
    using ex rest by blast
qed

theorem zero_dimension_features_witness:
  "AppOptions_new cfg_zero = Inr (bare_options (Some (Fin 0)) (Some (Fin 1200))) \<and>
   getAppWindowFeatures' page0 (bare_options (Some (Fin 0)) (Some (Fin 1200))) = '''' \<and>
   getAppQueryString' page0 (bare_options (Some (Fin 0)) (Some (Fin 1200)))
     (getAppWindowFeatures' page0 (bare_options (Some (Fin 0)) (Some (Fin 1200)))) =
   Inr ''?apiVersion=V1_6&origin=https://issuer.example''"
proof -
  have q: "getAppQueryString' page0 (bare_options None None)
     (getAppWindowFeatures' page0 (bare_options None None)) =
     Inr ''?apiVersion=V1_6&origin=https://issuer.example''"
    by (simp add: getAppQueryString'_def getAppWindowFeatures'_def urlParamMap_def
          processUrlParam_def bare_options_def truthy_dimension_def joinParams_def page0_def
          encode_def)
  have u: "(bare_options (Some (Fin 0)) (Some (Fin 1200)))\<lparr>contentHeight := None,
       contentWidth := None\<rparr> = bare_options None None"
    by (simp add: bare_options_def)
  have d: "js_get cfg_zero ''contentHeight'' = JNum (Fin 0)"
    "js_get cfg_zero ''contentWidth'' = JNum (Fin 1200)"
    "typeof (js_get cfg_zero ''onSessionCreated'') = ''function''"
    "typeof (js_get cfg_zero ''onReady'') \<in> {''function'', ''undefined''}"
    "typeof (js_get cfg_zero ''onSuccess'') \<in> {''function'', ''undefined''}"
    "typeof (js_get cfg_zero ''onFailure'') \<in> {''function'', ''undefined''}"
    "typeof (js_get cfg_zero ''onFinish'') \<in> {''function'', ''undefined''}"
    "typeof (js_get cfg_zero ''onCancel'') \<in> {''function'', ''undefined''}"
    by (simp_all add: cfg_zero_def)
  have z: "getAppWindowFeatures' page0 (bare_options (Some (Fin 0)) (Some (Fin 1200))) = '''' \<and>
    getAppQueryString' page0 (bare_options (Some (Fin 0)) (Some (Fin 1200)))
      (getAppWindowFeatures' page0 (bare_options (Some (Fin 0)) (Some (Fin 1200)))) =
    getAppQueryString' page0 (bare_options None None)
      (getAppWindowFeatures' page0 (bare_options None None))"
    using zero_dimension_features [of cfg_zero "Fin 0" "Fin 1200"
        "bare_options (Some (Fin 0)) (Some (Fin 1200))" page0]
      sample_dimensions_valid(4) d
    unfolding u by blast
  have e: "getAppWindowFeatures' page0 (bare_options (Some (Fin 0)) (Some (Fin 1200))) = ''''"
    using z by (rule conjunct1)
  have g: "getAppQueryString' page0 (bare_options (Some (Fin 0)) (Some (Fin 1200)))
      (getAppWindowFeatures' page0 (bare_options (Some (Fin 0)) (Some (Fin 1200)))) =
    getAppQueryString' page0 (bare_options None None)
      (getAppWindowFeatures' page0 (bare_options None None))"
    using z by (rule conjunct2)
  have f: "getAppQueryString' page0 (bare_options (Some (Fin 0)) (Some (Fin 1200)))
      (getAppWindowFeatures' page0 (bare_options (Some (Fin 0)) (Some (Fin 1200)))) =
      Inr ''?apiVersion=V1_6&origin=https://issuer.example''"
    using g q by (rule trans)
  show ?thesis
    by (intro conjI sample_dimensions_valid(4) e f)
qed

subsection \<open>The window identifier\<close>

text \<open>
  Claim C1, as stated, fails on the sample page: two consecutive successful calls of
  \<open>openAppWindow\<close>, with \<open>closeAppWindow\<close> in between, give both sessions the first
  constant.
\<close>

theorem window_id_counterexample:
  "fst (openAppWindow cfg0 page0) = Inr () \<and>
   currentAppContext page1 = Some 0 \<and>
   \<not> isAppWindowOpen page2 (heap page2 ! 0) \<and>
   fst (openAppWindow cfg0 page2) = Inr () \<and>
   currentAppContext page3 = Some 1 \<and>
   appWindowId' (heap page3 ! 0) = FIXED_APP_WINDOW_ID_1 \<and>
   appWindowId' (heap page3 ! 1) = FIXED_APP_WINDOW_ID_1"
proof -
  have "fst (openAppWindow cfg0 page0) = Inr ()"
    by (rule page0_opens)
  moreover have "currentAppContext page1 = Some 0"
    "\<not> isAppWindowOpen page2 (heap page2 ! 0)"
    by (simp_all add: page1_eval page2_eval isAppWindowOpen_def)
  ultimately show ?thesis using page3_facts by simp
qed

text \<open>
  Claim C1, amended. For every pair of successful calls of \<open>openAppWindow\<close> with any
  events in between (the window of the session then current is closed when the second
  call is made), each session's window identifier is one of the two constants, chosen by
  \<open>window.name\<close> of the page at the time of the call: the second constant when the name is
  the first constant, the first constant otherwise. The identifier of the first session
  is not changed by what follows, so the two sessions have the same identifier whenever
  the page's name is the same at both calls.
\<close>

theorem window_id_follows_page_name:
  assumes "fst (openAppWindow cfg1 w0) = Inr ()"
    and "w1 = snd (openAppWindow cfg1 w0)"
    and "w2 = run es w1"
    and "fst (openAppWindow cfg2 w2) = Inr ()"
    and "w3 = snd (openAppWindow cfg2 w2)"
  shows "currentAppContext w1 = Some (length (heap w0)) \<and>
         currentAppContext w3 = Some (length (heap w2)) \<and>
         length (heap w0) < length (heap w2) \<and>
         (case currentAppContext w2 of
            None \<Rightarrow> True | Some cur \<Rightarrow> \<not> isAppWindowOpen w2 (heap w2 ! cur)) \<and>
         appWindowId' (heap w1 ! length (heap w0)) =
           (if window_name w0 = FIXED_APP_WINDOW_ID_1
            then FIXED_APP_WINDOW_ID_2 else FIXED_APP_WINDOW_ID_1) \<and>
         appWindowId' (heap w3 ! length (heap w0)) = appWindowId' (heap w1 ! length (heap w0)) \<and>
         appWindowId' (heap w3 ! length (heap w2)) =
           (if window_name w2 = FIXED_APP_WINDOW_ID_1
            then FIXED_APP_WINDOW_ID_2 else FIXED_APP_WINDOW_ID_1) \<and>
         (window_name w2 = window_name w0 \<longrightarrow>
            appWindowId' (heap w3 ! length (heap w2)) = appWindowId' (heap w3 ! length (heap w0)))"
proof -
  obtain o1 where c1: "currentAppContext w1 = Some (length (heap w0))"
    and h1: "heap w1 = heap w0 @ [new_context o1 w0]"
    using openAppWindow_installs [OF assms(1)] assms(2) by auto
  obtain o2 where c3: "currentAppContext w3 = Some (length (heap w2))"
    and h3: "heap w3 = heap w2 @ [new_context o2 w2]"
    and idle2: "\<not> window_busy w2"
    using openAppWindow_installs [OF assms(4)] assms(5) by auto
  have in1: "length (heap w0) < length (heap w1)" using h1 by simp
  have r: "length (heap w0) < length (heap w2) \<and>
     (heap w2 ! length (heap w0) = heap w1 ! length (heap w0) \<or>
      heap w2 ! length (heap w0) = (heap w1 ! length (heap w0))\<lparr>receivedAppOutcome' := True\<rparr>)"
    using run_heap [OF in1, of es] assms(3) by simp
  have id1: "appWindowId' (heap w1 ! length (heap w0)) =
           (if window_name w0 = FIXED_APP_WINDOW_ID_1
            then FIXED_APP_WINDOW_ID_2 else FIXED_APP_WINDOW_ID_1)"
    using h1 by (simp add: new_context_def)
  have id3: "appWindowId' (heap w3 ! length (heap w2)) =
           (if window_name w2 = FIXED_APP_WINDOW_ID_1
            then FIXED_APP_WINDOW_ID_2 else FIXED_APP_WINDOW_ID_1)"
    using h3 by (simp add: new_context_def)
  have keep: "appWindowId' (heap w3 ! length (heap w0)) = appWindowId' (heap w1 ! length (heap w0))"
    using r h3 by (auto simp: nth_append)
  have idle: "case currentAppContext w2 of
            None \<Rightarrow> True | Some cur \<Rightarrow> \<not> isAppWindowOpen w2 (heap w2 ! cur)"
    using idle2 by (simp add: window_busy_def split: option.splits)
  show ?thesis
    using c1 c3 r id1 id3 keep idle by simp
qed


theorem window_id_follows_page_name_witness:
  "appWindowId' (heap page3 ! length (heap page0)) = FIXED_APP_WINDOW_ID_1 \<and>
   appWindowId' (heap page3 ! length (heap page2)) = FIXED_APP_WINDOW_ID_1 \<and>
   appWindowId' (heap page3 ! length (heap page2)) =
     appWindowId' (heap page3 ! length (heap page0))"
proof -
  have a: "fst (openAppWindow cfg0 page0) = Inr ()"
    by (rule page0_opens)
  have r: "page2 = run [CloseCall] page1"
    by (simp add: page2_def)
  have n: "window_name page0 = []" "window_name page2 = []"
    by (simp_all add: page2_eval page0_def)
  have i: "appWindowId' (heap page1 ! length (heap page0)) = FIXED_APP_WINDOW_ID_1"
    by (simp add: page1_eval page0_def)
  show ?thesis
    using window_id_follows_page_name [OF a page1_def r page3_facts(1) page3_def] n i
    by simp
qed


subsection \<open>The message router\<close>

text \<open>
  Claim C2. For every message event and every state, \<open>handleMessageEvent\<close> of a session
  returns the state it was given (so that no callback is called and no field of any
  session changes) unless all four hold: the session's window is open, the event's origin
  is the session's origin, the \<open>appWindowId\<close> field of the message data is the session's
  window identifier, and the \<open>action\<close> field is truthy. In particular a message whose
  origin differs from the session's origin changes nothing, whatever its action and
  payload; the same holds of the module's listener, which forwards to the current session.
\<close>

theorem unaccepted_message_is_ignored:
  "(\<not> (isAppWindowOpen w (heap w ! this) \<and>
       origin ev = appOrigin' (heap w ! this) \<and>
       js_get (messageData ev) ''appWindowId'' = JStr (appWindowId' (heap w ! this)) \<and>
       ToBoolean (js_get (messageData ev) ''action'')) \<longrightarrow>
      AppContext_handleMessageEvent this ev w = w \<and>
      calls (AppContext_handleMessageEvent this ev w) = calls w \<and>
      heap (AppContext_handleMessageEvent this ev w) = heap w \<and>
      (currentAppContext w = Some this \<longrightarrow>
         handleMessageEvent ev w = w \<and> step (Message ev) w = w)) \<and>
   (origin ev \<noteq> appOrigin' (heap w ! this) \<longrightarrow>
      AppContext_handleMessageEvent this ev w = w \<and>
      (currentAppContext w = Some this \<longrightarrow>
         handleMessageEvent ev w = w \<and> calls (step (Message ev) w) = calls w))"
proof -
  have a: "AppContext_handleMessageEvent this ev w = w"
    if "\<not> (isAppWindowOpen w (heap w ! this) \<and>
       origin ev = appOrigin' (heap w ! this) \<and>
       js_get (messageData ev) ''appWindowId'' = JStr (appWindowId' (heap w ! this)) \<and>
       ToBoolean (js_get (messageData ev) ''action''))"
    using that by (intro handle_rejected) (simp add: accepts_def)
  have b: "AppContext_handleMessageEvent this ev w = w"
    if "origin ev \<noteq> appOrigin' (heap w ! this)"
    using that by (intro handle_rejected) (simp add: accepts_def)
  show ?thesis
    using a b by (auto simp: handleMessageEvent_def)
qed

theorem unaccepted_message_is_ignored_witness:
  "origin msg_foreign \<noteq> appOrigin' (heap live1 ! 0) \<and>
   AppContext_handleMessageEvent 0 msg_foreign live1 = live1 \<and>
   handleMessageEvent msg_foreign live1 = live1"
proof -
  have o: "origin msg_foreign \<noteq> appOrigin' (heap live1 ! 0)"
    by (simp add: msg_foreign_def live1_eval page0_def)
  have c: "currentAppContext live1 = Some 0"
    by (simp add: live1_eval page0_def)
  show ?thesis
    using unaccepted_message_is_ignored [of live1 0 msg_foreign] o c by simp
qed

subsection \<open>The poll\<close>

text \<open>
  Claim C3. After a \<open>success\<close> or \<open>failure\<close> message was accepted by a session, and after
  any further events, a poll of that session that finds its window closed calls
  \<open>onFinish\<close> with the empty object when \<open>onFinish\<close> is registered. For a session created by
  \<open>openAppWindow\<close> and a sequence of events in which no \<open>success\<close> or \<open>failure\<close> message is
  accepted by it, a poll that finds its window closed calls \<open>onCancel\<close> with the empty
  object when \<open>onCancel\<close> is registered.
\<close>

theorem closed_window_is_reported:
  "(this < length (heap w) \<and> accepts this ev w \<and> is_outcome ev \<and>
    w2 = run es (AppContext_handleMessageEvent this ev w) \<and>
    appWindow' (heap w2 ! this) = Some h \<and> closed (windows w2 ! h) \<and>
    ToBoolean (onFinish' (heap w2 ! this)) \<longrightarrow>
      pollAppWindowClosed' this w2 =
        (Inr (), w2\<lparr>calls := calls w2 @
           [\<lparr>callee = onFinish' (heap w2 ! this), arg = JObj [], outcome_at_call = True\<rparr>]\<rparr>)) \<and>
   (fst (openAppWindow cfg w0) = Inr () \<and>
    currentAppContext (snd (openAppWindow cfg w0)) = Some this \<and>
    never_routed this es (snd (openAppWindow cfg w0)) \<and>
    w2 = run es (snd (openAppWindow cfg w0)) \<and>
    appWindow' (heap w2 ! this) = Some h \<and> closed (windows w2 ! h) \<and>
    ToBoolean (onCancel' (heap w2 ! this)) \<longrightarrow>
      pollAppWindowClosed' this w2 =
        (Inr (), w2\<lparr>calls := calls w2 @
           [\<lparr>callee = onCancel' (heap w2 ! this), arg = JObj [], outcome_at_call = False\<rparr>]\<rparr>))"
proof (intro conjI impI)
  assume a: "this < length (heap w) \<and> accepts this ev w \<and> is_outcome ev \<and>
    w2 = run es (AppContext_handleMessageEvent this ev w) \<and>
    appWindow' (heap w2 ! this) = Some h \<and> closed (windows w2 ! h) \<and>
    ToBoolean (onFinish' (heap w2 ! this))"
  let ?w1 = "AppContext_handleMessageEvent this ev w"
  have "this < length (heap ?w1)" "receivedAppOutcome' (heap ?w1 ! this)"
    using a handle_outcome(1,2) [of this w ev] by simp_all
  then have "receivedAppOutcome' (heap (run es ?w1) ! this)"
    using run_heap [of this ?w1 es] by auto
  then have flag: "receivedAppOutcome' (heap w2 ! this)" using a by simp
  have win: "appWindow' (heap w2 ! this) = Some h" and cl: "closed (windows w2 ! h)"
    and reg: "ToBoolean (onFinish' (heap w2 ! this))"
    using a by blast+
  show "pollAppWindowClosed' this w2 =
        (Inr (), w2\<lparr>calls := calls w2 @
           [\<lparr>callee = onFinish' (heap w2 ! this), arg = JObj [], outcome_at_call = True\<rparr>]\<rparr>)"
    by (rule poll_closed_finish [OF win cl reg flag])
next
  assume b: "fst (openAppWindow cfg w0) = Inr () \<and>
    currentAppContext (snd (openAppWindow cfg w0)) = Some this \<and>
    never_routed this es (snd (openAppWindow cfg w0)) \<and>
    w2 = run es (snd (openAppWindow cfg w0)) \<and>
    appWindow' (heap w2 ! this) = Some h \<and> closed (windows w2 ! h) \<and>
    ToBoolean (onCancel' (heap w2 ! this))"
  let ?w1 = "snd (openAppWindow cfg w0)"
  have "fst (openAppWindow cfg w0) = Inr ()" using b by blast
  then obtain opts where "currentAppContext ?w1 = Some (length (heap w0))"
    "heap ?w1 = heap w0 @ [new_context opts w0]"
    using openAppWindow_installs [of cfg w0] by auto
  then have fresh: "this < length (heap ?w1)" "\<not> receivedAppOutcome' (heap ?w1 ! this)"
    using b by (auto simp: new_context_def)
  have "heap (run es ?w1) ! this = heap ?w1 ! this"
    using fresh(1) b by (intro run_unrouted) simp_all
  then have flag: "\<not> receivedAppOutcome' (heap w2 ! this)" using fresh(2) b by simp
  have win: "appWindow' (heap w2 ! this) = Some h" and cl: "closed (windows w2 ! h)"
    and reg: "ToBoolean (onCancel' (heap w2 ! this))"
    using b by blast+
  show "pollAppWindowClosed' this w2 =
        (Inr (), w2\<lparr>calls := calls w2 @
           [\<lparr>callee = onCancel' (heap w2 ! this), arg = JObj [], outcome_at_call = False\<rparr>]\<rparr>)"
    by (rule poll_closed_cancel [OF win cl reg flag])
qed

theorem closed_window_is_reported_witness:
  "pollAppWindowClosed' 0 live3 =
     (Inr (), live3\<lparr>calls := calls live3 @
        [\<lparr>callee = JFunc 3, arg = JObj [], outcome_at_call = True\<rparr>]\<rparr>) \<and>
   pollAppWindowClosed' 0 live1_closed =
     (Inr (), live1_closed\<lparr>calls := calls live1_closed @
        [\<lparr>callee = JFunc 4, arg = JObj [], outcome_at_call = False\<rparr>]\<rparr>)"
proof -
  have l: "0 < length (heap live1)"
    by (simp add: live1_eval page0_def)
  have a: "pollAppWindowClosed' 0 live3 =
     (Inr (), live3\<lparr>calls := calls live3 @
        [\<lparr>callee = onFinish' (heap live3 ! 0), arg = JObj [], outcome_at_call = True\<rparr>]\<rparr>)"
    using closed_window_is_reported [of 0 live1 msg_success live3 "[UserCloses 0]" 0]
      l live1_accepts live3_facts(1-3)
    by (simp add: live3_def live2_def)
  have b: "pollAppWindowClosed' 0 live1_closed =
     (Inr (), live1_closed\<lparr>calls := calls live1_closed @
        [\<lparr>callee = onCancel' (heap live1_closed ! 0), arg = JObj [], outcome_at_call = False\<rparr>]\<rparr>)"
    using closed_window_is_reported [of 0 _ _ live1_closed "[UserCloses 0]" 0 cfg_callbacks page0]
      live1_eval(1) live1_closed_facts(1-3,5,6)
    by (simp add: live1_closed_def live1_def)
  show ?thesis
    using a b by (simp add: live3_facts(4) live1_closed_facts(4))
qed

subsection \<open>The outcome flag\<close>

text \<open>
  Claim C8. Once the outcome flag of a session is true, it is true after every sequence
  of events of the page (messages, poll ticks, calls of the two entry points, windows
  closing, the unload). An accepted message whose action is \<open>success\<close> or \<open>failure\<close> sets
  the flag, and the callback registered for that action, when there is one, is called
  with the flag already true.
\<close>

theorem outcome_flag_is_kept:
  "(this < length (heap w) \<and> receivedAppOutcome' (heap w ! this) \<longrightarrow>
      this < length (heap (run es w)) \<and> receivedAppOutcome' (heap (run es w) ! this)) \<and>
   (this < length (heap w) \<and> accepts this ev w \<and> is_outcome ev \<longrightarrow>
      receivedAppOutcome' (heap (AppContext_handleMessageEvent this ev w) ! this) \<and>
      (ToBoolean (Map_get (actionMap' (heap w ! this)) (js_get (messageData ev) ''action'')) \<longrightarrow>
         calls (AppContext_handleMessageEvent this ev w) =
           calls w @
           [\<lparr>callee = Map_get (actionMap' (heap w ! this)) (js_get (messageData ev) ''action''),
             arg = js_get (messageData ev) ''payload'',
             outcome_at_call = True\<rparr>]))"
proof -
  have a: "this < length (heap (run es w)) \<and> receivedAppOutcome' (heap (run es w) ! this)"
    if "this < length (heap w)" "receivedAppOutcome' (heap w ! this)"
    using run_heap [OF that(1), of es] that(2) by auto
  show ?thesis
    using a handle_outcome [of this w ev] by auto
qed

theorem outcome_flag_is_kept_witness:
  "receivedAppOutcome' (heap live2 ! 0) \<and>
   calls live2 = [\<lparr>callee = JFunc 2, arg = JObj [(''tokenResult'', JStr ''1'')],
                   outcome_at_call = True\<rparr>] \<and>
   receivedAppOutcome' (heap (run [UserCloses 0, PollTick 0, OpenCall cfg0] live2) ! 0)"
proof -
  have l: "0 < length (heap live1)" "0 < length (heap live2)"
    by (simp_all add: live2_eval live1_eval page0_def)
  have m: "Map_get (actionMap' (heap live1 ! 0)) (js_get (messageData msg_success) ''action'') = JFunc 2"
    "js_get (messageData msg_success) ''payload'' = JObj [(''tokenResult'', JStr ''1'')]"
    "calls live1 = []"
    by (simp_all add: live1_eval page0_def msg_success_def messageData_def Map_get_def)
  have a: "receivedAppOutcome' (heap live2 ! 0) \<and>
     calls live2 = [\<lparr>callee = JFunc 2, arg = JObj [(''tokenResult'', JStr ''1'')],
                   outcome_at_call = True\<rparr>]"
    using outcome_flag_is_kept [of 0 live1 "[]" msg_success] l live1_accepts m
    by (simp add: live2_def)
  then have "receivedAppOutcome' (heap (run [UserCloses 0, PollTick 0, OpenCall cfg0] live2) ! 0)"
    using outcome_flag_is_kept [of 0 live2 "[UserCloses 0, PollTick 0, OpenCall cfg0]" msg_success] l
    by blast
  then show ?thesis using a by blast
qed

end
